theory Spec2Isabelle
  imports Complex_Main "HOL-Library.Char_ord"
begin

section \<open>Text\<close>

text \<open>
  The extractor (nyseg-extractor.js) works on one JavaScript string per bill. A JavaScript
  string is a sequence of UTF-16 code units; here a text is a \<open>string\<close>, one \<open>char\<close> per
  code unit, which covers the code units below 256. The character tests below are the ones
  the regular expressions of the source use: \<open>\d\<close>, \<open>\w\<close>, \<open>\s\<close> and the range \<open>A-Z\<close>. In this
  range \<open>\s\<close> (white space and line terminators) is TAB, LF, VT, FF, CR, SP and NBSP.
\<close>

definition isDigit :: "char \<Rightarrow> bool" where
  "isDigit c = (CHR ''0'' \<le> c \<and> c \<le> CHR ''9'')"

definition isUpper :: "char \<Rightarrow> bool" where
  "isUpper c = (CHR ''A'' \<le> c \<and> c \<le> CHR ''Z'')"

definition isLower :: "char \<Rightarrow> bool" where
  "isLower c = (CHR ''a'' \<le> c \<and> c \<le> CHR ''z'')"

definition isWordChar :: "char \<Rightarrow> bool" where
  "isWordChar c = (isUpper c \<or> isLower c \<or> isDigit c \<or> c = CHR ''_'')"

definition isSpace :: "char \<Rightarrow> bool" where
  "isSpace c = (c \<in> set [CHR 0x09, CHR 0x0A, CHR 0x0B, CHR 0x0C, CHR 0x0D, CHR 0x20, CHR 0xA0])"

text \<open>
  Case folding of the \<open>i\<close> flag (Canonicalize without the \<open>u\<close> flag): an ASCII letter and its
  other case differ in bit 5 only. A code unit above 127 never folds to an ASCII one, and
  the patterns of the source contain ASCII characters only, so folding the ASCII letters
  is all the flag does here.
\<close>

fun toUpper :: "char \<Rightarrow> char" where
  "toUpper (Char b0 b1 b2 b3 b4 b5 b6 b7) =
     (if isLower (Char b0 b1 b2 b3 b4 b5 b6 b7) then Char b0 b1 b2 b3 b4 False b6 b7
      else Char b0 b1 b2 b3 b4 b5 b6 b7)"

fun toLower :: "char \<Rightarrow> char" where
  "toLower (Char b0 b1 b2 b3 b4 b5 b6 b7) =
     (if isUpper (Char b0 b1 b2 b3 b4 b5 b6 b7) then Char b0 b1 b2 b3 b4 True b6 b7
      else Char b0 b1 b2 b3 b4 b5 b6 b7)"

section \<open>Regular expressions\<close>

text \<open>
  The fragment of JavaScript regular expressions that the source uses: character classes,
  literals, sequence, alternation, capture groups, the word boundary \<open>\b\<close>, and the
  quantifiers \<open>?\<close>, \<open>*\<close>, \<open>+\<close>, \<open>{n}\<close>, \<open>{n,m}\<close> and the lazy \<open>*?\<close>, which the source applies to
  single characters and classes only. \<open>Rep greedy lo hi cl\<close> repeats the class \<open>cl\<close> between
  \<open>lo\<close> and \<open>hi\<close> times (\<open>None\<close>: no upper bound). \<open>Close\<close> is internal: it closes a group
  that was opened where the remaining input was the given string.
\<close>

datatype citem = Ch char | Range char char | Digit | Wordc | Space | NotSpace

datatype re =
    Eps
  | Atom "citem list"
  | Rep bool nat "nat option" "citem list"
  | Seq re re
  | Alt re re
  | Grp nat re
  | WordB
  | Close nat string

fun imatch :: "citem \<Rightarrow> char \<Rightarrow> bool" where
  "imatch (Ch x) c = (c = x)"
| "imatch (Range a b) c = (a \<le> c \<and> c \<le> b)"
| "imatch Digit c = isDigit c"
| "imatch Wordc c = isWordChar c"
| "imatch Space c = isSpace c"
| "imatch NotSpace c = (\<not> isSpace c)"

definition cmatch :: "citem list \<Rightarrow> char \<Rightarrow> bool" where
  "cmatch cl c = list_ex (\<lambda>i. imatch i c) cl"

text \<open>The \<open>i\<close> flag: every class is closed under the case folding.\<close>

fun icaseItem :: "citem \<Rightarrow> citem list" where
  "icaseItem (Ch x) = (if isLower x \<or> isUpper x then [Ch (toUpper x), Ch (toLower x)] else [Ch x])"
| "icaseItem (Range a b) =
     Range a b
     # (if max a (CHR ''A'') \<le> min b (CHR ''Z'')
        then [Range (toLower (max a (CHR ''A''))) (toLower (min b (CHR ''Z'')))] else [])
     @ (if max a (CHR ''a'') \<le> min b (CHR ''z'')
        then [Range (toUpper (max a (CHR ''a''))) (toUpper (min b (CHR ''z'')))] else [])"
| "icaseItem i = [i]"

fun icase :: "re \<Rightarrow> re" where
  "icase (Atom cl) = Atom (concat (map icaseItem cl))"
| "icase (Rep g lo hi cl) = Rep g lo hi (concat (map icaseItem cl))"
| "icase (Seq a b) = Seq (icase a) (icase b)"
| "icase (Alt a b) = Alt (icase a) (icase b)"
| "icase (Grp i r) = Grp i (icase r)"
| "icase r = r"

fun rsize :: "re \<Rightarrow> nat" where
  "rsize (Seq a b) = Suc (rsize a + rsize b)"
| "rsize (Alt a b) = Suc (rsize a + rsize b)"
| "rsize (Grp i r) = Suc (Suc (rsize r))"
| "rsize r = 1"

definition dec :: "nat option \<Rightarrow> nat option" where
  "dec hi = map_option (\<lambda>h. h - 1) hi"

definition wordOpt :: "char option \<Rightarrow> bool" where
  "wordOpt p = (case p of None \<Rightarrow> False | Some c \<Rightarrow> isWordChar c)"

text \<open>
  The backtracking matcher. \<open>run k p inp cs\<close> matches the sequence \<open>k\<close> of expressions at
  the input \<open>inp\<close>, where \<open>p\<close> is the character before \<open>inp\<close> (\<open>None\<close> at the start of the
  text) and \<open>cs\<close> the captures so far. It returns the state after the first successful path
  in the priority order of the backtracking semantics (left alternative first, a greedy
  quantifier takes one more character first, a lazy one tries the rest first), \<open>None\<close> when
  no path succeeds.
\<close>

type_synonym mresult = "char option \<times> string \<times> (nat \<times> string) list"

function run :: "re list \<Rightarrow> char option \<Rightarrow> string \<Rightarrow> (nat \<times> string) list \<Rightarrow> mresult option" where
  "run [] p inp cs = Some (p, inp, cs)"
| "run (Eps # k) p inp cs = run k p inp cs"
| "run (Atom cl # k) p inp cs =
     (case inp of
        [] \<Rightarrow> None
      | x # xs \<Rightarrow> if cmatch cl x then run k (Some x) xs cs else None)"
| "run (Rep g lo hi cl # k) p inp cs =
     (if hi = Some 0 then run k p inp cs
      else if 0 < lo then
        (case inp of
           [] \<Rightarrow> None
         | x # xs \<Rightarrow>
             if cmatch cl x then run (Rep g (lo - 1) (dec hi) cl # k) (Some x) xs cs else None)
      else if g then
        (case (case inp of
                 [] \<Rightarrow> None
               | x # xs \<Rightarrow>
                   if cmatch cl x then run (Rep g 0 (dec hi) cl # k) (Some x) xs cs else None) of
           Some r \<Rightarrow> Some r
         | None \<Rightarrow> run k p inp cs)
      else
        (case run k p inp cs of
           Some r \<Rightarrow> Some r
         | None \<Rightarrow>
             (case inp of
                [] \<Rightarrow> None
              | x # xs \<Rightarrow>
                  if cmatch cl x then run (Rep g 0 (dec hi) cl # k) (Some x) xs cs else None)))"
| "run (Seq a b # k) p inp cs = run (a # b # k) p inp cs"
| "run (Alt a b # k) p inp cs =
     (case run (a # k) p inp cs of Some r \<Rightarrow> Some r | None \<Rightarrow> run (b # k) p inp cs)"
| "run (Grp i r # k) p inp cs = run (r # Close i inp # k) p inp cs"
| "run (WordB # k) p inp cs =
     (if wordOpt p \<noteq> wordOpt (case inp of [] \<Rightarrow> None | x # xs \<Rightarrow> Some x)
      then run k p inp cs else None)"
| "run (Close i st # k) p inp cs =
     run k p inp ((i, take (length st - length inp) st) # cs)"
  by pat_completeness auto
termination
  by (relation "measures [\<lambda>(k, p, inp, cs). length inp,
                          \<lambda>(k, p, inp, cs). sum_list (map rsize k)]") auto

text \<open>
  A match result: the index of the match, the matched substring (element 0 of the
  JavaScript result), the captures, and where the match ended (the rest of the text and
  the character before it), from which a global search goes on.
\<close>

record rmatch =
  index :: nat
  matched :: string
  groups :: "(nat \<times> string) list"
  afterPrev :: "char option"
  after :: string

text \<open>\<open>m[i]\<close>; \<open>None\<close> is \<open>undefined\<close>.\<close>

definition grp :: "rmatch \<Rightarrow> nat \<Rightarrow> string option" where
  "grp m i = map_of (groups m) i"

text \<open>The leftmost match at or after the current position.\<close>

fun searchFrom :: "re \<Rightarrow> char option \<Rightarrow> string \<Rightarrow> nat \<Rightarrow> rmatch option" where
  "searchFrom r p inp idx =
     (case run [r] p inp [] of
        Some (p', rest', cs) \<Rightarrow>
          Some \<lparr>index = idx, matched = take (length inp - length rest') inp, groups = cs,
                afterPrev = p', after = rest'\<rparr>
      | None \<Rightarrow>
          (case inp of [] \<Rightarrow> None | x # xs \<Rightarrow> searchFrom r (Some x) xs (Suc idx)))"

text \<open>\<open>text.match(re)\<close> for an expression without the \<open>g\<close> flag; \<open>None\<close> is \<open>null\<close>.\<close>

definition reMatch :: "re \<Rightarrow> string \<Rightarrow> rmatch option" where
  "reMatch r text = searchFrom r None text 0"

text \<open>
  The successive matches of an expression with the \<open>g\<close> flag: each search starts where
  the previous match ended, one character further when that match was empty. The two
  tests on the lengths are there for the termination proof; they always hold (lemma
  \<open>allFrom_unguarded\<close> below).
\<close>

function allFrom :: "re \<Rightarrow> char option \<Rightarrow> string \<Rightarrow> nat \<Rightarrow> rmatch list" where
  "allFrom r p inp idx =
     (case searchFrom r p inp idx of
        None \<Rightarrow> []
      | Some m \<Rightarrow>
          m # (if matched m \<noteq> [] then
                 (if length (after m) < length inp
                  then allFrom r (afterPrev m) (after m) (index m + length (matched m)) else [])
               else
                 (case after m of
                    [] \<Rightarrow> []
                  | x # xs \<Rightarrow> if length xs < length inp then allFrom r (Some x) xs (Suc (index m)) else [])))"
  by pat_completeness auto
termination
  by (relation "measure (\<lambda>(r, p, inp, idx). length inp)") auto

text \<open>\<open>[...text.matchAll(re)]\<close>.\<close>

definition reMatchAll :: "re \<Rightarrow> string \<Rightarrow> rmatch list" where
  "reMatchAll r text = allFrom r None text 0"

text \<open>\<open>text.match(re)\<close> for an expression with the \<open>g\<close> flag: the matched substrings, \<open>null\<close> when there is none.\<close>

definition reMatchG :: "re \<Rightarrow> string \<Rightarrow> string list option" where
  "reMatchG r text = (case reMatchAll r text of [] \<Rightarrow> None | ms \<Rightarrow> Some (map matched ms))"

text \<open>Building blocks for writing the patterns of the source.\<close>

fun lit :: "string \<Rightarrow> re" where
  "lit [] = Eps"
| "lit (c # cs) = Seq (Atom [Ch c]) (lit cs)"

fun seqs :: "re list \<Rightarrow> re" where
  "seqs [] = Eps"
| "seqs (r # rs) = Seq r (seqs rs)"

fun alts :: "re list \<Rightarrow> re" where
  "alts [] = Eps"
| "alts [r] = r"
| "alts (r # rs) = Alt r (alts rs)"

definition rplus :: "citem list \<Rightarrow> re" where
  "rplus cl = Rep True 1 None cl"

definition rstar :: "citem list \<Rightarrow> re" where
  "rstar cl = Rep True 0 None cl"

definition rlazy :: "citem list \<Rightarrow> re" where
  "rlazy cl = Rep False 0 None cl"

definition ropt :: "citem list \<Rightarrow> re" where
  "ropt cl = Rep True 0 (Some 1) cl"

definition rtimes :: "nat \<Rightarrow> nat \<Rightarrow> citem list \<Rightarrow> re" where
  "rtimes lo hi cl = Rep True lo (Some hi) cl"

section \<open>Numbers\<close>

text \<open>
  A JavaScript number is modelled as an exact rational, \<open>NaN\<close> or one of the two
  infinities. The rounding of IEEE 754 doubles, overflow and the sign of zero are not
  modelled: arithmetic on finite numbers is exact.
\<close>

datatype jsnum = Num rat | NaN | PosInf | NegInf

definition truthy :: "jsnum \<Rightarrow> bool" where
  "truthy x = (x \<noteq> NaN \<and> x \<noteq> Num 0)"

text \<open>\<open>x || 0\<close>\<close>

definition orZero :: "jsnum \<Rightarrow> jsnum" where
  "orZero x = (if truthy x then x else Num 0)"

fun jneg :: "jsnum \<Rightarrow> jsnum" where
  "jneg (Num a) = Num (- a)"
| "jneg NaN = NaN"
| "jneg PosInf = NegInf"
| "jneg NegInf = PosInf"

fun jadd :: "jsnum \<Rightarrow> jsnum \<Rightarrow> jsnum" where
  "jadd (Num a) (Num b) = Num (a + b)"
| "jadd NaN y = NaN"
| "jadd x NaN = NaN"
| "jadd PosInf NegInf = NaN"
| "jadd NegInf PosInf = NaN"
| "jadd PosInf y = PosInf"
| "jadd NegInf y = NegInf"
| "jadd (Num a) y = y"

definition jsub :: "jsnum \<Rightarrow> jsnum \<Rightarrow> jsnum" where
  "jsub x y = jadd x (jneg y)"

fun positive :: "jsnum \<Rightarrow> bool" where
  "positive (Num a) = (0 \<le> a)"
| "positive PosInf = True"
| "positive x = False"

fun jmul :: "jsnum \<Rightarrow> jsnum \<Rightarrow> jsnum" where
  "jmul (Num a) (Num b) = Num (a * b)"
| "jmul NaN y = NaN"
| "jmul x NaN = NaN"
| "jmul x y =
     (if x = Num 0 \<or> y = Num 0 then NaN
      else if positive x = positive y then PosInf else NegInf)"

fun jdiv :: "jsnum \<Rightarrow> jsnum \<Rightarrow> jsnum" where
  "jdiv (Num a) (Num b) =
     (if b \<noteq> 0 then Num (a / b)
      else if a = 0 then NaN else if 0 < a then PosInf else NegInf)"
| "jdiv NaN y = NaN"
| "jdiv x NaN = NaN"
| "jdiv (Num a) y = Num 0"
| "jdiv x (Num b) = (if positive x = (0 \<le> b) then PosInf else NegInf)"
| "jdiv x y = NaN"

text \<open>\<open>x > y\<close>\<close>

fun jgt :: "jsnum \<Rightarrow> jsnum \<Rightarrow> bool" where
  "jgt (Num a) (Num b) = (b < a)"
| "jgt NaN y = False"
| "jgt x NaN = False"
| "jgt PosInf y = (y \<noteq> PosInf)"
| "jgt NegInf y = False"
| "jgt (Num a) y = (y = NegInf)"

text \<open>\<open>Math.abs\<close> and \<open>Math.ceil\<close>\<close>

fun jabs :: "jsnum \<Rightarrow> jsnum" where
  "jabs (Num a) = Num \<bar>a\<bar>"
| "jabs NaN = NaN"
| "jabs x = PosInf"

fun jceil :: "jsnum \<Rightarrow> jsnum" where
  "jceil (Num a) = Num (of_int \<lceil>a\<rceil>)"
| "jceil x = x"

subsection \<open>The built-in parsers\<close>

definition digitVal :: "char \<Rightarrow> nat" where
  "digitVal c = of_char c - 48"

definition digitsVal :: "string \<Rightarrow> nat" where
  "digitsVal s = foldl (\<lambda>n c. 10 * n + digitVal c) 0 s"

text \<open>An optional sign: whether it is a minus, and the rest.\<close>

definition signSplit :: "string \<Rightarrow> bool \<times> string" where
  "signSplit s =
     (case s of
        [] \<Rightarrow> (False, [])
      | c # r \<Rightarrow> if c = CHR ''-'' then (True, r) else if c = CHR ''+'' then (False, r) else (False, s))"

text \<open>The exponent part \<open>e\<close>, optional sign, digits; 0 when there is none.\<close>

definition exponentPart :: "string \<Rightarrow> int" where
  "exponentPart s =
     (case s of
        [] \<Rightarrow> 0
      | c # r \<Rightarrow>
          if c = CHR ''e'' \<or> c = CHR ''E'' then
            (let (neg, u) = signSplit r; ds = takeWhile isDigit u
             in if ds = [] then 0 else if neg then - int (digitsVal ds) else int (digitsVal ds))
          else 0)"

definition pow10 :: "int \<Rightarrow> rat" where
  "pow10 e = (if 0 \<le> e then 10 ^ nat e else 1 / 10 ^ nat (- e))"

text \<open>
  \<open>parseFloat\<close>: leading white space is skipped, then the longest prefix that is a decimal
  literal (sign, \<open>Infinity\<close> or digits with an optional fraction and exponent) gives the
  value; \<open>NaN\<close> when no prefix is one.
\<close>

definition parseFloat :: "string \<Rightarrow> jsnum" where
  "parseFloat s =
     (let (neg, u) = signSplit (dropWhile isSpace s) in
      if take 8 u = ''Infinity'' then (if neg then NegInf else PosInf)
      else
        (let ip = takeWhile isDigit u;
             r1 = dropWhile isDigit u;
             fp = (case r1 of [] \<Rightarrow> [] | c # r \<Rightarrow> if c = CHR ''.'' then takeWhile isDigit r else []);
             r2 = (case r1 of [] \<Rightarrow> [] | c # r \<Rightarrow> if c = CHR ''.'' then dropWhile isDigit r else r1)
         in if ip = [] \<and> fp = [] then NaN
            else Num ((if neg then - 1 else 1)
                      * (of_nat (digitsVal ip) + of_nat (digitsVal fp) / 10 ^ length fp)
                      * pow10 (exponentPart r2))))"

definition isHexDigit :: "char \<Rightarrow> bool" where
  "isHexDigit c = (isDigit c \<or> (CHR ''a'' \<le> c \<and> c \<le> CHR ''f'') \<or> (CHR ''A'' \<le> c \<and> c \<le> CHR ''F''))"

definition hexDigitVal :: "char \<Rightarrow> nat" where
  "hexDigitVal c =
     (if isDigit c then of_char c - 48 else if CHR ''a'' \<le> c then of_char c - 87 else of_char c - 55)"

text \<open>
  \<open>parseInt\<close> with no radix: leading white space is skipped, after an optional sign a
  prefix \<open>0x\<close> selects radix 16, and the longest prefix of digits gives the value; \<open>NaN\<close>
  when there is no digit. An \<open>undefined\<close> argument reads as the text \<open>undefined\<close>: \<open>NaN\<close>.
\<close>

definition parseInt :: "string option \<Rightarrow> jsnum" where
  "parseInt str =
     (case str of
        None \<Rightarrow> NaN
      | Some s \<Rightarrow>
          (let (neg, u) = signSplit (dropWhile isSpace s);
               hex = (take 2 u = ''0x'' \<or> take 2 u = ''0X'');
               ds = (if hex then takeWhile isHexDigit (drop 2 u) else takeWhile isDigit u);
               v = (if hex then foldl (\<lambda>n c. 16 * n + hexDigitVal c) 0 ds else digitsVal ds)
           in if ds = [] then NaN
              else Num ((if neg then - 1 else 1) * of_nat v)))"

subsection \<open>The Numeric Normalizer of the source\<close>

text \<open>
  \<open>parseNumber\<close> (lines 40-43) and \<open>reconstructRate\<close> (lines 52-55). The argument is a
  capture of a match, so it may be \<open>undefined\<close> (\<open>None\<close>); \<open>!str\<close> holds for \<open>undefined\<close>,
  \<open>null\<close> and the empty string.
\<close>

definition parseNumber :: "string option \<Rightarrow> jsnum" where
  "parseNumber str =
     (case str of
        None \<Rightarrow> Num 0
      | Some s \<Rightarrow> if s = [] then Num 0 else orZero (parseFloat (filter (\<lambda>c. c \<noteq> CHR '','') s)))"

definition reconstructRate :: "string option \<Rightarrow> jsnum" where
  "reconstructRate rateDigits =
     (case rateDigits of
        None \<Rightarrow> Num 0
      | Some s \<Rightarrow> if s = [] then Num 0 else orZero (parseFloat (''0.'' @ s)))"

section \<open>Dates\<close>

text \<open>
  A \<open>Date\<close> object holds a time value in milliseconds, or is invalid. The local time zone
  of the host is modelled with offset 0 (with any constant offset the differences of time
  values are the same). \<open>newDate y m d\<close> is \<open>new Date(y, m, d)\<close>: a year from 0 to 99 is
  taken in the 1900s, months and days outside their range carry over (MakeDay), and the
  day number of a year start is DayFromYear of the language definition.
\<close>

datatype jsdate = TimeValue int | InvalidDate

definition truncNum :: "rat \<Rightarrow> int" where
  "truncNum q = (if 0 \<le> q then \<lfloor>q\<rfloor> else \<lceil>q\<rceil>)"

definition dayFromYear :: "int \<Rightarrow> int" where
  "dayFromYear y = 365 * (y - 1970) + (y - 1969) div 4 - (y - 1901) div 100 + (y - 1601) div 400"

definition isLeap :: "int \<Rightarrow> bool" where
  "isLeap y = (y mod 4 = 0 \<and> (y mod 100 \<noteq> 0 \<or> y mod 400 = 0))"

definition monthStart :: "nat \<Rightarrow> bool \<Rightarrow> int" where
  "monthStart mn leap =
     [0, 31, 59, 90, 120, 151, 181, 212, 243, 273, 304, 334] ! mn
     + (if leap \<and> 2 \<le> mn then 1 else 0)"

definition makeDay :: "int \<Rightarrow> int \<Rightarrow> int \<Rightarrow> int" where
  "makeDay y m dt =
     (let ym = y + m div 12; mn = nat (m mod 12)
      in dayFromYear ym + monthStart mn (isLeap ym) + dt - 1)"

definition msPerDay :: int where
  "msPerDay = 86400000"

definition newDate :: "jsnum \<Rightarrow> jsnum \<Rightarrow> jsnum \<Rightarrow> jsdate" where
  "newDate year month date =
     (case (year, month, date) of
        (Num y, Num m, Num d) \<Rightarrow>
          (let yi = truncNum y;
               yr = (if 0 \<le> yi \<and> yi \<le> 99 then 1900 + yi else yi);
               tv = makeDay yr (truncNum m) (truncNum d) * msPerDay
           in if \<bar>tv\<bar> \<le> 8640000000000000 then TimeValue tv else InvalidDate)
      | _ \<Rightarrow> InvalidDate)"

text \<open>\<open>a - b\<close> on two dates\<close>

fun dateDiff :: "jsdate \<Rightarrow> jsdate \<Rightarrow> jsnum" where
  "dateDiff (TimeValue a) (TimeValue b) = Num (of_int (a - b))"
| "dateDiff x y = NaN"

text \<open>The two date patterns of \<open>parseDate\<close> (lines 19 and 27).\<close>

definition shortDateRe :: re where
  "shortDateRe = seqs [Grp 1 (rtimes 2 2 [Digit]), lit ''/'', Grp 2 (rtimes 2 2 [Digit]), lit ''/'',
                       Grp 3 (rtimes 2 2 [Digit])]"

definition longDateRe :: re where
  "longDateRe = seqs [Grp 1 (rplus [Wordc]), rplus [Space], Grp 2 (rtimes 1 2 [Digit]), ropt [Ch CHR '',''],
                      rplus [Space], Grp 3 (rtimes 4 4 [Digit])]"

text \<open>
  \<open>parseDate\<close> (lines 15-33). \<open>new Date(dateStr)\<close> on the form \<open>Month DD, YYYY\<close> is left to
  the host by the language definition, so it is the parameter \<open>dateOfString\<close>.
\<close>

definition parseDate :: "(string \<Rightarrow> jsdate) \<Rightarrow> string option \<Rightarrow> jsdate option" where
  "parseDate dateOfString dateStr =
     (case dateStr of
        None \<Rightarrow> None
      | Some s \<Rightarrow>
          if s = [] then None
          else
            (case reMatch shortDateRe s of
               Some shortMatch \<Rightarrow>
                 (let month = grp shortMatch 1; day = grp shortMatch 2; year = grp shortMatch 3;
                      fullYear = (if jgt (parseInt year) (Num 50) then jadd (Num 1900) (parseInt year)
                                  else jadd (Num 2000) (parseInt year))
                  in Some (newDate fullYear (jsub (parseInt month) (Num 1)) (parseInt day)))
             | None \<Rightarrow>
                 (case reMatch longDateRe s of
                    Some longMatch \<Rightarrow> Some (dateOfString s)
                  | None \<Rightarrow> None)))"

section \<open>The patterns of the extractor\<close>

text \<open>
  Each pattern of \<open>extractBillData\<close> and \<open>extractAccountInfo\<close>, under the name of the
  variable that the source binds its result to. \<open>ws1\<close> is \<open>\s+\<close>, \<open>ws0\<close> is \<open>\s*\<close>, \<open>digits\<close> is
  \<open>\d+\<close>, \<open>money\<close> is \<open>[\d,.]+\<close>, \<open>decimal\<close> is \<open>[\d.]+\<close>, and \<open>phrase\<close> is a run of words with
  \<open>\s+\<close> between them. \<open>icase\<close> is the \<open>i\<close> flag.
\<close>

definition ws1 :: re where
  "ws1 = rplus [Space]"

definition ws0 :: re where
  "ws0 = rstar [Space]"

definition digits :: re where
  "digits = rplus [Digit]"

definition money :: re where
  "money = rplus [Digit, Ch CHR '','', Ch CHR ''.'']"

definition decimal :: re where
  "decimal = rplus [Digit, Ch CHR ''.'']"

fun phrase :: "string list \<Rightarrow> re" where
  "phrase [] = Eps"
| "phrase [v] = lit v"
| "phrase (v # vs) = Seq (lit v) (Seq ws1 (phrase vs))"

text \<open>\<open>(\d+)\s*@\s*0\.\<close>: the digits of a rate, split from its \<open>0.\<close>, as group 2.\<close>

definition splitRate :: re where
  "splitRate = seqs [Grp 2 digits, ws0, lit ''@'', ws0, lit ''0.'']"

text \<open>\<open>\$?([\d,.]+)\<close>: an amount as group 1.\<close>

definition amount :: re where
  "amount = seqs [ropt [Ch CHR ''$''], Grp 1 money]"

text \<open>Line 158: \<^verbatim>\<open>/Statement\s+Date:?\s*(\w+\s+\d{1,2},?\s+\d{4})/i\<close>\<close>

definition statementDateRe :: re where
  "statementDateRe =
     icase (seqs [phrase [''Statement'', ''Date''], ropt [Ch CHR '':''], ws0,
       Grp 1 (seqs [rplus [Wordc], ws1, rtimes 1 2 [Digit], ropt [Ch CHR '',''], ws1, rtimes 4 4 [Digit]])])"

text \<open>Line 165: \<^verbatim>\<open>\d{2}\/\d{2}\/\d{2}\<close>\<close>

definition dateToken :: re where
  "dateToken =
     seqs [rtimes 2 2 [Digit], lit ''/'', rtimes 2 2 [Digit], lit ''/'', rtimes 2 2 [Digit]]"

text \<open>Line 165: \<^verbatim>\<open>/(\d{2}\/\d{2}\/\d{2})\s*-\s*(\d{2}\/\d{2}\/\d{2})/\<close>\<close>

definition servicePeriodRe :: re where
  "servicePeriodRe =
     seqs [Grp 1 dateToken, ws0, lit ''-'', ws0, Grp 2 dateToken]"

text \<open>Line 172: \<^verbatim>\<open>/(\d+)\s*days\s+(\d+)\s*kwh/i\<close>\<close>

definition daysKwhRe :: re where
  "daysKwhRe =
     icase (seqs [Grp 1 digits, ws0, lit ''days'', ws1, Grp 2 digits, ws0, lit ''kwh''])"

text \<open>Line 177: \<^verbatim>\<open>/(\d+)\s*kwh\s+(\d+)\s*days/i\<close>\<close>

definition kwhDaysRe :: re where
  "kwhDaysRe =
     icase (seqs [Grp 1 digits, ws0, lit ''kwh'', ws1, Grp 2 digits, ws0, lit ''days''])"

text \<open>Line 187: \<^verbatim>\<open>/Basic\s+service\s+charge\s+([\d,.]+)/i\<close>\<close>

definition elecBasicRe :: re where
  "elecBasicRe =
     icase (seqs [phrase [''Basic'', ''service'', ''charge''], ws1, Grp 1 money])"

text \<open>Line 198: \<^verbatim>\<open>/(\d+)\s+kwh\s+(\d+)\s*@\s*0\.\s*Delivery\s+charge\s+([\d,.]+)/i\<close>\<close>

definition deliveryRe :: re where
  "deliveryRe =
     icase (seqs [Grp 1 digits, ws1, lit ''kwh'', ws1, splitRate, ws0,
       phrase [''Delivery'', ''charge''], ws1, Grp 3 money])"

text \<open>Line 208: \<^verbatim>\<open>/(\d+)\s+kwh\s+(\d+)\s*@\s*0\.\s*Delivery\s+charge\s*-\s*\w+\s+([\d,.]+)/gi\<close>\<close>

definition deliveryMonthRe :: re where
  "deliveryMonthRe =
     icase (seqs [Grp 1 digits, ws1, lit ''kwh'', ws1, splitRate, ws0,
       phrase [''Delivery'', ''charge''], ws0, lit ''-'', ws0, rplus [Wordc], ws1, Grp 3 money])"

text \<open>Line 230: \<^verbatim>\<open>/(\d+)\s+kwh\s+(\d+)\s*@\s*0\.\s*Transition\s+charge\s+([\d,.]+)/i\<close>\<close>

definition transitionRe :: re where
  "transitionRe =
     icase (seqs [Grp 1 digits, ws1, lit ''kwh'', ws1, splitRate, ws0,
       phrase [''Transition'', ''charge''], ws1, Grp 3 money])"

text \<open>Line 236: \<^verbatim>\<open>/(\d+)\s+kwh\s+(\d+)\s*@\s*0\.\s*Transition\s+charge\s*-\s*\w+\s+([\d,.]+)/gi\<close>\<close>

definition transitionMonthRe :: re where
  "transitionMonthRe =
     icase (seqs [Grp 1 digits, ws1, lit ''kwh'', ws1, splitRate, ws0,
       phrase [''Transition'', ''charge''], ws0, lit ''-'', ws0, rplus [Wordc], ws1, Grp 3 money])"

text \<open>Line 256: \<^verbatim>\<open>/(\d+)\s+kwh\s+(\d+)\s*@\s*0\.\s*SBC\s+charge\s+([\d,.]+)/i\<close>\<close>

definition sbcRe :: re where
  "sbcRe =
     icase (seqs [Grp 1 digits, ws1, lit ''kwh'', ws1, splitRate, ws0,
       phrase [''SBC'', ''charge''], ws1, Grp 3 money])"

text \<open>Line 262: \<^verbatim>\<open>/(\d+)\s+kwh\s+(\d+)\s*@\s*0\.\s*SBC\s+charge\s*-\s*\w+\s+([\d,.]+)/gi\<close>\<close>

definition sbcMonthRe :: re where
  "sbcMonthRe =
     icase (seqs [Grp 1 digits, ws1, lit ''kwh'', ws1, splitRate, ws0,
       phrase [''SBC'', ''charge''], ws0, lit ''-'', ws0, rplus [Wordc], ws1, Grp 3 money])"

text \<open>Line 281: \<^verbatim>\<open>/Subtotal\s+Electricity\s+Delivery\s+\$?([\d,.]+)/i\<close>\<close>

definition elecDeliveryTotalRe :: re where
  "elecDeliveryTotalRe =
     icase (seqs [phrase [''Subtotal'', ''Electricity'', ''Delivery''], ws1, amount])"

text \<open>Line 288: \<^verbatim>\<open>/Supply\s+charge\s+(\d+)\s+kwh\s+(\d+)\s*@\s*0\.\s+([\d,.]+)/i\<close>\<close>

definition supplyRe :: re where
  "supplyRe =
     icase (seqs [phrase [''Supply'', ''charge''], ws1, Grp 1 digits, ws1, lit ''kwh'', ws1, splitRate, ws1,
       Grp 3 money])"

text \<open>Line 295: \<^verbatim>\<open>/Subtotal\s+Electricity\s+Supply\s+\$?([\d,.]+)/i\<close>\<close>

definition elecSupplyTotalRe :: re where
  "elecSupplyTotalRe =
     icase (seqs [phrase [''Subtotal'', ''Electricity'', ''Supply''], ws1, amount])"

text \<open>Line 301: \<^verbatim>\<open>/Subtotal\s+Electricity\s+Taxes\s+and\s+Surcharges\s+\$?([\d,.]+)/i\<close>\<close>

definition elecTaxRe :: re where
  "elecTaxRe =
     icase (seqs [phrase [''Subtotal'', ''Electricity'', ''Taxes'', ''and'', ''Surcharges''], ws1, amount])"

text \<open>Line 307: \<^verbatim>\<open>/Total\s+Electricity\s+Cost\s+\$?([\d,.]+)/i\<close>\<close>

definition elecTotalRe :: re where
  "elecTotalRe =
     icase (seqs [phrase [''Total'', ''Electricity'', ''Cost''], ws1, amount])"

text \<open>Line 315: \<^verbatim>\<open>/Natural\s+gas\s+used\s*\(ccf\)\s*([\d.]+)/i\<close>\<close>

definition gasCcfRe :: re where
  "gasCcfRe =
     icase (seqs [phrase [''Natural'', ''gas'', ''used''], ws0, lit ''(ccf)'', ws0, Grp 1 decimal])"

text \<open>Line 321: \<^verbatim>\<open>/Natural\s+gas\s+used\s*\(therm\)\s*([\d.]+)/i\<close>\<close>

definition gasThermRe :: re where
  "gasThermRe =
     icase (seqs [phrase [''Natural'', ''gas'', ''used''], ws0, lit ''(therm)'', ws0, Grp 1 decimal])"

text \<open>Line 329: \<^verbatim>\<open>/Natural\s+Gas\s+Delivery\s+Charges[\s\S]*?Basic\s+service\s+charge\s+([\d,.]+)/i\<close>\<close>

definition gasBasicRe :: re where
  "gasBasicRe =
     icase (seqs [phrase [''Natural'', ''Gas'', ''Delivery'', ''Charges''], rlazy [Space, NotSpace],
       phrase [''Basic'', ''service'', ''charge''], ws1, Grp 1 money])"

text \<open>Line 339: \<^verbatim>\<open>/Delivery\s+charge\s+([\d.]+)\s+therm\s+(\d+)\s*@\s*0\.\s+([\d,.]+)/i\<close>\<close>

definition gasDeliverySimpleRe :: re where
  "gasDeliverySimpleRe =
     icase (seqs [phrase [''Delivery'', ''charge''], ws1, Grp 1 decimal, ws1, lit ''therm'', ws1, splitRate, ws1,
       Grp 3 money])"

text \<open>Line 347: \<^verbatim>\<open>/Delivery\s+charge\s*-\s*\w+\s+([\d.]+)\s+therm\s+(\d+)\s*@\s*0\.\s+([\d,.]+)/gi\<close>\<close>

definition gasDeliveryMonthRe :: re where
  "gasDeliveryMonthRe =
     icase (seqs [phrase [''Delivery'', ''charge''], ws0, lit ''-'', ws0, rplus [Wordc], ws1, Grp 1 decimal, ws1,
       lit ''therm'', ws1, splitRate, ws1, Grp 3 money])"

text \<open>Line 370: \<^verbatim>\<open>/Supply\s+charge\s*-\s*\w+\s+([\d.]+)\s+therm\s+(\d+)\s*@\s*0\.\s+([\d,.]+)/gi\<close>\<close>

definition gasSupplyRe :: re where
  "gasSupplyRe =
     icase (seqs [phrase [''Supply'', ''charge''], ws0, lit ''-'', ws0, rplus [Wordc], ws1, Grp 1 decimal, ws1,
       lit ''therm'', ws1, splitRate, ws1, Grp 3 money])"

text \<open>Line 391: \<^verbatim>\<open>/Supply\s+charge\s*-\s*\w+\s+([\d.]+)\s+therm\s*@\s*([\d.]+)\s+([\d,.]+)/gi\<close>\<close>

definition gasSupplyStdRe :: re where
  "gasSupplyStdRe =
     icase (seqs [phrase [''Supply'', ''charge''], ws0, lit ''-'', ws0, rplus [Wordc], ws1, Grp 1 decimal, ws1,
       lit ''therm'', ws0, lit ''@'', ws0, Grp 2 decimal, ws1, Grp 3 money])"

text \<open>Line 412: \<^verbatim>\<open>/Subtotal\s+Natural\s+Gas\s+Delivery\s+\$?([\d,.]+)/i\<close>\<close>

definition gasDeliveryTotalRe :: re where
  "gasDeliveryTotalRe =
     icase (seqs [phrase [''Subtotal'', ''Natural'', ''Gas'', ''Delivery''], ws1, amount])"

text \<open>Line 418: \<^verbatim>\<open>/Subtotal\s+Natural\s+Gas\s+Supply\s+\$?([\d,.]+)/i\<close>\<close>

definition gasSupplyTotalRe :: re where
  "gasSupplyTotalRe =
     icase (seqs [phrase [''Subtotal'', ''Natural'', ''Gas'', ''Supply''], ws1, amount])"

text \<open>Line 424: \<^verbatim>\<open>/Subtotal\s+Natural\s+Gas\s+Taxes\s+and\s+Surcharges\s+\$?([\d,.]+)/i\<close>\<close>

definition gasTaxRe :: re where
  "gasTaxRe =
     icase (seqs [phrase [''Subtotal'', ''Natural'', ''Gas'', ''Taxes'', ''and'', ''Surcharges''], ws1, amount])"

text \<open>Line 430: \<^verbatim>\<open>/Total\s+Natural\s+Gas\s+Cost\s+\$?([\d,.]+)/i\<close>\<close>

definition gasTotalRe :: re where
  "gasTotalRe =
     icase (seqs [phrase [''Total'', ''Natural'', ''Gas'', ''Cost''], ws1, amount])"

text \<open>Line 438: \<^verbatim>\<open>/Total\s+Energy\s+Charges\s+\$?([\d,.]+)/i\<close>\<close>

definition totalEnergyRe :: re where
  "totalEnergyRe =
     icase (seqs [phrase [''Total'', ''Energy'', ''Charges''], ws1, amount])"

text \<open>Line 444: \<^verbatim>\<open>/Amount\s+Due:?\s+\$?([\d,.]+)/i\<close>\<close>

definition amountDueRe :: re where
  "amountDueRe =
     icase (seqs [phrase [''Amount'', ''Due''], ropt [Ch CHR '':''], ws1, amount])"

text \<open>Line 76: \<^verbatim>\<open>/(\d{4}-\d{4}-\d{3})/\<close>\<close>

definition accountRe :: re where
  "accountRe =
     Grp 1 (seqs [rtimes 4 4 [Digit], lit ''-'', rtimes 4 4 [Digit], lit ''-'', rtimes 3 3 [Digit]])"

text \<open>Line 83: \<^verbatim>\<open>/\b([A-Z][A-Z]+\s+[A-Z][A-Z]+)\b/g\<close>\<close>

definition nameRe :: re where
  "nameRe =
     seqs [WordB,
       Grp 1 (seqs [Atom [Range CHR ''A'' CHR ''Z''], rplus [Range CHR ''A'' CHR ''Z''], ws1,
                    Atom [Range CHR ''A'' CHR ''Z''], rplus [Range CHR ''A'' CHR ''Z'']]),
       WordB]"

text \<open>Line 107: \<^verbatim>\<open>/(\d+\s+[A-Z][A-Z\s]+(?:ST|RD|AVE|DR|LN|CT|WAY|BLVD|PL|CIR)\.?),?\s*([A-Z][A-Z]+,?\s*NY\s*\d{5})/i\<close>\<close>

definition addressRe :: re where
  "addressRe =
     icase (seqs [Grp 1 (seqs [digits, ws1, Atom [Range CHR ''A'' CHR ''Z''], rplus [Range CHR ''A'' CHR ''Z'', Space],
                           alts (map lit [''ST'', ''RD'', ''AVE'', ''DR'', ''LN'', ''CT'', ''WAY'', ''BLVD'', ''PL'', ''CIR'']),
                           ropt [Ch CHR ''.'']]),
                    ropt [Ch CHR '',''], ws0,
                    Grp 2 (seqs [Atom [Range CHR ''A'' CHR ''Z''], rplus [Range CHR ''A'' CHR ''Z''], ropt [Ch CHR '',''], ws0,
                           lit ''NY'', ws0, rtimes 5 5 [Digit]])])"


section \<open>The bill record\<close>

text \<open>
  The object literal of lines 116-155. The fields of the sub-objects \<open>servicePeriod\<close>,
  \<open>electricity\<close> and \<open>gas\<close> carry the prefixes \<open>sp_\<close>, \<open>e_\<close> and \<open>g_\<close>, since the last two share
  field names.
\<close>

record servicePeriodRec =
  sp_start :: "jsdate option"
  sp_end :: "jsdate option"
  sp_days :: jsnum

record electricityRec =
  e_usage :: jsnum
  e_basicServiceCharge :: jsnum
  e_deliveryRate :: jsnum
  e_deliveryCharge :: jsnum
  e_transitionRate :: jsnum
  e_transitionCharge :: jsnum
  e_sbcRate :: jsnum
  e_sbcCharge :: jsnum
  e_supplyRate :: jsnum
  e_supplyCharge :: jsnum
  e_totalDelivery :: jsnum
  e_totalSupply :: jsnum
  e_totalTaxes :: jsnum
  e_totalCost :: jsnum

record gasRec =
  g_usageCcf :: jsnum
  g_usageTherms :: jsnum
  g_basicServiceCharge :: jsnum
  g_deliveryRate :: jsnum
  g_deliveryCharge :: jsnum
  g_supplyRate :: jsnum
  g_supplyCharge :: jsnum
  g_totalDelivery :: jsnum
  g_totalSupply :: jsnum
  g_totalTaxes :: jsnum
  g_totalCost :: jsnum

record billData =
  fileName :: string
  statementDate :: "jsdate option"
  servicePeriod :: servicePeriodRec
  electricity :: electricityRec
  gas :: gasRec
  totalEnergyCharges :: jsnum
  amountDue :: jsnum

definition initialData :: "string \<Rightarrow> billData" where
  "initialData name =
     \<lparr>fileName = name,
      statementDate = None,
      servicePeriod = \<lparr>sp_start = None, sp_end = None, sp_days = Num 0\<rparr>,
      electricity =
        \<lparr>e_usage = Num 0, e_basicServiceCharge = Num 0, e_deliveryRate = Num 0,
         e_deliveryCharge = Num 0, e_transitionRate = Num 0, e_transitionCharge = Num 0,
         e_sbcRate = Num 0, e_sbcCharge = Num 0, e_supplyRate = Num 0, e_supplyCharge = Num 0,
         e_totalDelivery = Num 0, e_totalSupply = Num 0, e_totalTaxes = Num 0, e_totalCost = Num 0\<rparr>,
      gas =
        \<lparr>g_usageCcf = Num 0, g_usageTherms = Num 0, g_basicServiceCharge = Num 0,
         g_deliveryRate = Num 0, g_deliveryCharge = Num 0, g_supplyRate = Num 0,
         g_supplyCharge = Num 0, g_totalDelivery = Num 0, g_totalSupply = Num 0,
         g_totalTaxes = Num 0, g_totalCost = Num 0\<rparr>,
      totalEnergyCharges = Num 0,
      amountDue = Num 0\<rparr>"

text \<open>
  The own properties of the returned object that hold a document-level amount, looked up
  by name as \<open>bill[name]\<close> does; \<open>None\<close> is \<open>undefined\<close>.
\<close>

definition documentTotal :: "billData \<Rightarrow> string \<Rightarrow> jsnum option" where
  "documentTotal data name =
     (if name = ''totalEnergyCharges'' then Some (totalEnergyCharges data)
      else if name = ''amountDue'' then Some (amountDue data)
      else None)"

section \<open>The Multi-Month Reconciler\<close>

text \<open>
  The loop over the per-month matches, which the source writes out six times (lines
  210-224, 238-250, 264-276, 349-361, 372-386 and 393-407) with the same body: group 1
  is the quantity, group 2 the rate, group 3 the charge. The copies differ in how they
  read the quantity (\<open>parseInt\<close> for kWh, \<open>parseNumber\<close> for therms) and the rate
  (\<open>reconstructRate\<close>, or \<open>parseNumber\<close> for a literal decimal), the two parameters here.
  The state of the loop is \<open>(totalKwh, weightedRate, totalCharge)\<close>.
\<close>

fun reconcileLoop ::
  "(string option \<Rightarrow> jsnum) \<Rightarrow> (string option \<Rightarrow> jsnum) \<Rightarrow> rmatch list
    \<Rightarrow> jsnum \<times> jsnum \<times> jsnum \<Rightarrow> jsnum \<times> jsnum \<times> jsnum" where
  "reconcileLoop quantityOf rateOf [] acc = acc"
| "reconcileLoop quantityOf rateOf (m # ms) (totalKwh, weightedRate, totalCharge) =
     (let kwh = quantityOf (grp m 1);
          rate = rateOf (grp m 2);
          charge = parseNumber (grp m 3)
      in reconcileLoop quantityOf rateOf ms
           (jadd totalKwh kwh, jadd weightedRate (jmul kwh rate), jadd totalCharge charge))"

text \<open>The rate and the charge that the code stores after the loop.\<close>

definition reconcile ::
  "(string option \<Rightarrow> jsnum) \<Rightarrow> (string option \<Rightarrow> jsnum) \<Rightarrow> rmatch list \<Rightarrow> jsnum \<times> jsnum" where
  "reconcile quantityOf rateOf ms =
     (case reconcileLoop quantityOf rateOf ms (Num 0, Num 0, Num 0) of
        (totalKwh, weightedRate, totalCharge) \<Rightarrow>
          (if jgt totalKwh (Num 0) then jdiv weightedRate totalKwh else Num 0, totalCharge))"

section \<open>The Assembler: \<open>extractBillData\<close>\<close>

text \<open>
  \<open>extractBillData\<close> (lines 115-456) updates the record block by block. Each block is a
  function from the record to the record, in the order of the source.
\<close>

definition stepStatementDate :: "(string \<Rightarrow> jsdate) \<Rightarrow> string \<Rightarrow> billData \<Rightarrow> billData" where
  "stepStatementDate dateOfString text data =
     (case reMatch statementDateRe text of
        None \<Rightarrow> data
      | Some statementDateMatch \<Rightarrow>
          data\<lparr>statementDate := parseDate dateOfString (grp statementDateMatch 1)\<rparr>)"

definition stepServicePeriod :: "(string \<Rightarrow> jsdate) \<Rightarrow> string \<Rightarrow> billData \<Rightarrow> billData" where
  "stepServicePeriod dateOfString text data =
     (case reMatch servicePeriodRe text of
        None \<Rightarrow> data
      | Some servicePeriodMatch \<Rightarrow>
          data\<lparr>servicePeriod := (servicePeriod data)
                 \<lparr>sp_start := parseDate dateOfString (grp servicePeriodMatch 1),
                  sp_end := parseDate dateOfString (grp servicePeriodMatch 2)\<rparr>\<rparr>)"

definition stepDaysKwh :: "string \<Rightarrow> billData \<Rightarrow> billData" where
  "stepDaysKwh text data =
     (case reMatch daysKwhRe text of
        Some daysKwhMatch \<Rightarrow>
          data\<lparr>servicePeriod := (servicePeriod data)\<lparr>sp_days := parseInt (grp daysKwhMatch 1)\<rparr>,
               electricity := (electricity data)\<lparr>e_usage := parseInt (grp daysKwhMatch 2)\<rparr>\<rparr>
      | None \<Rightarrow>
          (case reMatch kwhDaysRe text of
             Some kwhDaysMatch \<Rightarrow>
               data\<lparr>electricity := (electricity data)\<lparr>e_usage := parseInt (grp kwhDaysMatch 1)\<rparr>,
                    servicePeriod := (servicePeriod data)\<lparr>sp_days := parseInt (grp kwhDaysMatch 2)\<rparr>\<rparr>
           | None \<Rightarrow> data))"

text \<open>Electricity\<close>

definition stepElecBasic :: "string \<Rightarrow> billData \<Rightarrow> billData" where
  "stepElecBasic text data =
     (case reMatch elecBasicRe text of
        None \<Rightarrow> data
      | Some elecBasicMatch \<Rightarrow> data\<lparr>electricity := (electricity data)\<lparr>e_basicServiceCharge := parseNumber (grp elecBasicMatch 1)\<rparr>\<rparr>)"

text \<open>Lines 198-226: the single-period line first; when the rate is still 0, the per-month lines.\<close>

definition stepDelivery :: "string \<Rightarrow> billData \<Rightarrow> billData" where
  "stepDelivery text data =
     (let data1 =
            (case reMatch deliveryRe text of
               None \<Rightarrow> data
             | Some deliveryMatch \<Rightarrow>
                 data\<lparr>electricity := (electricity data)
                        \<lparr>e_deliveryRate := reconstructRate (grp deliveryMatch 2),
                         e_deliveryCharge := parseNumber (grp deliveryMatch 3)\<rparr>\<rparr>)
      in if e_deliveryRate (electricity data1) = Num 0 then
           (case reMatchAll deliveryMonthRe text of
              [] \<Rightarrow> data1
            | deliveryMonthMatches \<Rightarrow>
                (case reconcile parseInt reconstructRate deliveryMonthMatches of
                   (rate, charge) \<Rightarrow>
                     data1\<lparr>electricity := (electricity data1)\<lparr>e_deliveryRate := rate, e_deliveryCharge := charge\<rparr>\<rparr>))
         else data1)"

text \<open>Lines 230-252.\<close>

definition stepTransition :: "string \<Rightarrow> billData \<Rightarrow> billData" where
  "stepTransition text data =
     (let data1 =
            (case reMatch transitionRe text of
               None \<Rightarrow> data
             | Some transitionMatch \<Rightarrow>
                 data\<lparr>electricity := (electricity data)
                        \<lparr>e_transitionRate := reconstructRate (grp transitionMatch 2),
                         e_transitionCharge := parseNumber (grp transitionMatch 3)\<rparr>\<rparr>)
      in if e_transitionRate (electricity data1) = Num 0 then
           (case reMatchAll transitionMonthRe text of
              [] \<Rightarrow> data1
            | transitionMonthMatches \<Rightarrow>
                (case reconcile parseInt reconstructRate transitionMonthMatches of
                   (rate, charge) \<Rightarrow>
                     data1\<lparr>electricity := (electricity data1)\<lparr>e_transitionRate := rate, e_transitionCharge := charge\<rparr>\<rparr>))
         else data1)"

text \<open>Lines 256-278.\<close>

definition stepSbc :: "string \<Rightarrow> billData \<Rightarrow> billData" where
  "stepSbc text data =
     (let data1 =
            (case reMatch sbcRe text of
               None \<Rightarrow> data
             | Some sbcMatch \<Rightarrow>
                 data\<lparr>electricity := (electricity data)
                        \<lparr>e_sbcRate := reconstructRate (grp sbcMatch 2),
                         e_sbcCharge := parseNumber (grp sbcMatch 3)\<rparr>\<rparr>)
      in if e_sbcRate (electricity data1) = Num 0 then
           (case reMatchAll sbcMonthRe text of
              [] \<Rightarrow> data1
            | sbcMonthMatches \<Rightarrow>
                (case reconcile parseInt reconstructRate sbcMonthMatches of
                   (rate, charge) \<Rightarrow>
                     data1\<lparr>electricity := (electricity data1)\<lparr>e_sbcRate := rate, e_sbcCharge := charge\<rparr>\<rparr>))
         else data1)"

definition stepElecDeliveryTotal :: "string \<Rightarrow> billData \<Rightarrow> billData" where
  "stepElecDeliveryTotal text data =
     (case reMatch elecDeliveryTotalRe text of
        None \<Rightarrow> data
      | Some elecDeliveryTotalMatch \<Rightarrow> data\<lparr>electricity := (electricity data)\<lparr>e_totalDelivery := parseNumber (grp elecDeliveryTotalMatch 1)\<rparr>\<rparr>)"

text \<open>Lines 288-292: the supply charge of electricity has this one pattern.\<close>

definition stepSupply :: "string \<Rightarrow> billData \<Rightarrow> billData" where
  "stepSupply text data =
     (case reMatch supplyRe text of
        None \<Rightarrow> data
      | Some supplyMatch \<Rightarrow>
          data\<lparr>electricity := (electricity data)
                 \<lparr>e_supplyRate := reconstructRate (grp supplyMatch 2),
                  e_supplyCharge := parseNumber (grp supplyMatch 3)\<rparr>\<rparr>)"

definition stepElecSupplyTotal :: "string \<Rightarrow> billData \<Rightarrow> billData" where
  "stepElecSupplyTotal text data =
     (case reMatch elecSupplyTotalRe text of
        None \<Rightarrow> data
      | Some elecSupplyTotalMatch \<Rightarrow> data\<lparr>electricity := (electricity data)\<lparr>e_totalSupply := parseNumber (grp elecSupplyTotalMatch 1)\<rparr>\<rparr>)"

definition stepElecTax :: "string \<Rightarrow> billData \<Rightarrow> billData" where
  "stepElecTax text data =
     (case reMatch elecTaxRe text of
        None \<Rightarrow> data
      | Some elecTaxMatch \<Rightarrow> data\<lparr>electricity := (electricity data)\<lparr>e_totalTaxes := parseNumber (grp elecTaxMatch 1)\<rparr>\<rparr>)"

definition stepElecTotal :: "string \<Rightarrow> billData \<Rightarrow> billData" where
  "stepElecTotal text data =
     (case reMatch elecTotalRe text of
        None \<Rightarrow> data
      | Some elecTotalMatch \<Rightarrow> data\<lparr>electricity := (electricity data)\<lparr>e_totalCost := parseNumber (grp elecTotalMatch 1)\<rparr>\<rparr>)"

text \<open>Natural gas\<close>

definition stepGasCcf :: "string \<Rightarrow> billData \<Rightarrow> billData" where
  "stepGasCcf text data =
     (case reMatch gasCcfRe text of
        None \<Rightarrow> data
      | Some gasCcfMatch \<Rightarrow> data\<lparr>gas := (gas data)\<lparr>g_usageCcf := parseNumber (grp gasCcfMatch 1)\<rparr>\<rparr>)"

definition stepGasTherm :: "string \<Rightarrow> billData \<Rightarrow> billData" where
  "stepGasTherm text data =
     (case reMatch gasThermRe text of
        None \<Rightarrow> data
      | Some gasThermMatch \<Rightarrow> data\<lparr>gas := (gas data)\<lparr>g_usageTherms := parseNumber (grp gasThermMatch 1)\<rparr>\<rparr>)"

definition stepGasBasic :: "string \<Rightarrow> billData \<Rightarrow> billData" where
  "stepGasBasic text data =
     (case reMatch gasBasicRe text of
        None \<Rightarrow> data
      | Some gasBasicMatch \<Rightarrow> data\<lparr>gas := (gas data)\<lparr>g_basicServiceCharge := parseNumber (grp gasBasicMatch 1)\<rparr>\<rparr>)"

text \<open>Lines 339-363.\<close>

definition stepGasDelivery :: "string \<Rightarrow> billData \<Rightarrow> billData" where
  "stepGasDelivery text data =
     (let data1 =
            (case reMatch gasDeliverySimpleRe text of
               None \<Rightarrow> data
             | Some gasDeliverySimple \<Rightarrow>
                 data\<lparr>gas := (gas data)
                        \<lparr>g_deliveryRate := reconstructRate (grp gasDeliverySimple 2),
                         g_deliveryCharge := parseNumber (grp gasDeliverySimple 3)\<rparr>\<rparr>)
      in if g_deliveryRate (gas data1) = Num 0 then
           (case reMatchAll gasDeliveryMonthRe text of
              [] \<Rightarrow> data1
            | gasDeliveryMonthMatches \<Rightarrow>
                (case reconcile parseNumber reconstructRate gasDeliveryMonthMatches of
                   (rate, charge) \<Rightarrow>
                     data1\<lparr>gas := (gas data1)\<lparr>g_deliveryRate := rate, g_deliveryCharge := charge\<rparr>\<rparr>))
         else data1)"

text \<open>
  Lines 370-409: the gas supply charge. Both patterns are per-month patterns (\<open>Supply
  charge - Month\<close>): first the one with the split rate, then, when the rate is still 0, the
  one with the rate as a literal decimal.
\<close>

definition stepGasSupply :: "string \<Rightarrow> billData \<Rightarrow> billData" where
  "stepGasSupply text data =
     (let data1 =
            (case reMatchAll gasSupplyRe text of
               [] \<Rightarrow> data
             | gasSupplyMatches \<Rightarrow>
                 (case reconcile parseNumber reconstructRate gasSupplyMatches of
                    (rate, charge) \<Rightarrow>
                      data\<lparr>gas := (gas data)\<lparr>g_supplyRate := rate, g_supplyCharge := charge\<rparr>\<rparr>))
      in if g_supplyRate (gas data1) = Num 0 then
           (case reMatchAll gasSupplyStdRe text of
              [] \<Rightarrow> data1
            | gasSupplyStdMatches \<Rightarrow>
                (case reconcile parseNumber parseNumber gasSupplyStdMatches of
                   (rate, charge) \<Rightarrow>
                     data1\<lparr>gas := (gas data1)\<lparr>g_supplyRate := rate, g_supplyCharge := charge\<rparr>\<rparr>))
         else data1)"

definition stepGasDeliveryTotal :: "string \<Rightarrow> billData \<Rightarrow> billData" where
  "stepGasDeliveryTotal text data =
     (case reMatch gasDeliveryTotalRe text of
        None \<Rightarrow> data
      | Some gasDeliveryTotalMatch \<Rightarrow> data\<lparr>gas := (gas data)\<lparr>g_totalDelivery := parseNumber (grp gasDeliveryTotalMatch 1)\<rparr>\<rparr>)"

definition stepGasSupplyTotal :: "string \<Rightarrow> billData \<Rightarrow> billData" where
  "stepGasSupplyTotal text data =
     (case reMatch gasSupplyTotalRe text of
        None \<Rightarrow> data
      | Some gasSupplyTotalMatch \<Rightarrow> data\<lparr>gas := (gas data)\<lparr>g_totalSupply := parseNumber (grp gasSupplyTotalMatch 1)\<rparr>\<rparr>)"

definition stepGasTax :: "string \<Rightarrow> billData \<Rightarrow> billData" where
  "stepGasTax text data =
     (case reMatch gasTaxRe text of
        None \<Rightarrow> data
      | Some gasTaxMatch \<Rightarrow> data\<lparr>gas := (gas data)\<lparr>g_totalTaxes := parseNumber (grp gasTaxMatch 1)\<rparr>\<rparr>)"

definition stepGasTotal :: "string \<Rightarrow> billData \<Rightarrow> billData" where
  "stepGasTotal text data =
     (case reMatch gasTotalRe text of
        None \<Rightarrow> data
      | Some gasTotalMatch \<Rightarrow> data\<lparr>gas := (gas data)\<lparr>g_totalCost := parseNumber (grp gasTotalMatch 1)\<rparr>\<rparr>)"

text \<open>Totals\<close>

definition stepTotalEnergy :: "string \<Rightarrow> billData \<Rightarrow> billData" where
  "stepTotalEnergy text data =
     (case reMatch totalEnergyRe text of
        None \<Rightarrow> data
      | Some totalEnergyMatch \<Rightarrow> data\<lparr>totalEnergyCharges := parseNumber (grp totalEnergyMatch 1)\<rparr>)"

definition stepAmountDue :: "string \<Rightarrow> billData \<Rightarrow> billData" where
  "stepAmountDue text data =
     (case reMatch amountDueRe text of
        None \<Rightarrow> data
      | Some amountDueMatch \<Rightarrow> data\<lparr>amountDue := parseNumber (grp amountDueMatch 1)\<rparr>)"

text \<open>
  Lines 450-453: the billing days from the dates. A \<open>Date\<close> object is truthy, also an
  invalid one, so the test on \<open>start\<close> and \<open>end\<close> is a test for \<open>null\<close>.
\<close>

definition stepDeriveDays :: "billData \<Rightarrow> billData" where
  "stepDeriveDays data =
     (case (sp_start (servicePeriod data), sp_end (servicePeriod data)) of
        (Some startDate, Some endDate) \<Rightarrow>
          if sp_days (servicePeriod data) = Num 0 then
            (let diffTime = jabs (dateDiff endDate startDate)
             in data\<lparr>servicePeriod := (servicePeriod data)
                      \<lparr>sp_days := jceil (jdiv diffTime (Num (1000 * 60 * 60 * 24)))\<rparr>\<rparr>)
          else data
      | _ \<Rightarrow> data)"

definition extractBillData :: "(string \<Rightarrow> jsdate) \<Rightarrow> string \<Rightarrow> string \<Rightarrow> billData" where
  "extractBillData dateOfString text name =
     stepDeriveDays
       (stepAmountDue text
       (stepTotalEnergy text
       (stepGasTotal text
       (stepGasTax text
       (stepGasSupplyTotal text
       (stepGasDeliveryTotal text
       (stepGasSupply text
       (stepGasDelivery text
       (stepGasBasic text
       (stepGasTherm text
       (stepGasCcf text
       (stepElecTotal text
       (stepElecTax text
       (stepElecSupplyTotal text
       (stepSupply text
       (stepElecDeliveryTotal text
       (stepSbc text
       (stepTransition text
       (stepDelivery text
       (stepElecBasic text
       (stepDaysKwh text
       (stepServicePeriod dateOfString text
       (stepStatementDate dateOfString text
       (initialData name))))))))))))))))))))))))"


section \<open>Account information: \<open>extractAccountInfo\<close>\<close>

record accountInfo =
  accountNumber :: string
  customerName :: string
  serviceAddress :: string

text \<open>Calling a method on \<open>undefined\<close> throws.\<close>

datatype error = TypeError

text \<open>\<open>s.trim()\<close>\<close>

definition trim :: "string \<Rightarrow> string" where
  "trim s = rev (dropWhile isSpace (rev (dropWhile isSpace s)))"

text \<open>
  \<open>s.split(/\s+/)\<close>: the pieces between the runs of white space, with an empty piece
  before a leading and after a trailing run. \<open>acc\<close> is the current piece, reversed.
\<close>

function splitAcc :: "string \<Rightarrow> string \<Rightarrow> string list" where
  "splitAcc [] acc = [rev acc]"
| "splitAcc (c # cs) acc =
     (if isSpace c then rev acc # splitAcc (dropWhile isSpace cs) [] else splitAcc cs (c # acc))"
  by pat_completeness auto
termination
  by (relation "measure (\<lambda>(s, acc). length s)") (auto simp: less_Suc_eq_le length_dropWhile_le)

definition splitWs :: "string \<Rightarrow> string list" where
  "splitWs s = splitAcc s []"

text \<open>Lines 85-94.\<close>

definition excludeWords :: "string list" where
  "excludeWords =
     [''ST'', ''RD'', ''AVE'', ''DR'', ''LN'', ''CT'', ''WAY'', ''BLVD'', ''PL'', ''CIR'', ''DRIVE'', ''STREET'',
      ''ROAD'', ''AVENUE'', ''LANE'', ''COURT'',
      ''BOSTON'', ''LANSING'', ''NY'', ''MA'',
      ''NYSEG'', ''SERVICE'', ''ACCOUNT'', ''STATEMENT'', ''BUDGET'', ''BILLING'', ''PAYMENT'', ''AUTOPAY'',
      ''RESIDENTIAL'', ''SUMMARY'', ''BALANCE'', ''PROJECT'', ''SHARE'', ''HEATING'', ''FUND'', ''PAGE'',
      ''BANK'', ''ENERGY'', ''ELECTRIC'', ''NATURAL'', ''GAS'', ''DELIVERY'', ''SUPPLY'', ''TOTAL'', ''AMOUNT'']"

text \<open>The test of lines 96-98 on one match of the name pattern.\<close>

definition isExcluded :: "string \<Rightarrow> bool" where
  "isExcluded m = list_ex (\<lambda>w. w \<in> set excludeWords \<or> length w < 2) (splitWs m)"

definition nameAccepted :: "string \<Rightarrow> bool" where
  "nameAccepted m = (\<not> isExcluded m \<and> length (splitWs m) = 2)"

text \<open>The loop of lines 95-102, with its \<open>break\<close>; \<open>name\<close> is \<open>info.customerName\<close> before the loop.\<close>

fun nameLoop :: "string list \<Rightarrow> string \<Rightarrow> string" where
  "nameLoop [] name = name"
| "nameLoop (m # ms) name = (if nameAccepted m then m else nameLoop ms name)"

text \<open>String concatenation turns \<open>undefined\<close> into the text \<open>undefined\<close>.\<close>

definition toStr :: "string option \<Rightarrow> string" where
  "toStr g = (case g of None \<Rightarrow> ''undefined'' | Some s \<Rightarrow> s)"

definition extractAccountInfo :: "string \<Rightarrow> error + accountInfo" where
  "extractAccountInfo text =
     (let info = \<lparr>accountNumber = [], customerName = [], serviceAddress = []\<rparr> in
      case (case reMatch accountRe text of
              None \<Rightarrow> Inr info
            | Some accountMatch \<Rightarrow>
                (case grp accountMatch 1 of
                   None \<Rightarrow> Inl TypeError
                 | Some g \<Rightarrow> Inr (info\<lparr>accountNumber := trim g\<rparr>))) of
        Inl e \<Rightarrow> Inl e
      | Inr info1 \<Rightarrow>
          (let info2 = (case reMatchG nameRe text of
                          None \<Rightarrow> info1
                        | Some nameMatch \<Rightarrow> info1\<lparr>customerName := nameLoop nameMatch (customerName info1)\<rparr>);
               info3 = (case reMatch addressRe text of
                          None \<Rightarrow> info2
                        | Some addressMatch \<Rightarrow>
                            info2\<lparr>serviceAddress :=
                                     trim (toStr (grp addressMatch 1) @ '', '' @ toStr (grp addressMatch 2))\<rparr>)
           in Inr info3))"

section \<open>Notions used in the statements and proofs\<close>

subsection \<open>What a capture group can hold\<close>

text \<open>
  \<open>groupOk P i r\<close>: every group \<open>i\<close> of the expression \<open>r\<close> is a repetition, at least once, of a
  class whose characters all satisfy \<open>P\<close>. \<open>mustCapture i r\<close>: every match of \<open>r\<close> goes through
  a group \<open>i\<close>. \<open>capsOk\<close> and \<open>contOk\<close> are the invariant of the matcher that goes with them:
  the captures of group \<open>i\<close> so far are non-empty and made of \<open>P\<close> characters, and so is the
  part of the input read since a group \<open>i\<close> was opened.
\<close>

fun groupOk :: "(char \<Rightarrow> bool) \<Rightarrow> nat \<Rightarrow> re \<Rightarrow> bool" where
  "groupOk P i (Grp j r) =
     (if j = i then
        (case r of
           Rep g lo hi cl \<Rightarrow> 0 < lo \<and> hi \<noteq> Some 0 \<and> (\<forall>c. cmatch cl c \<longrightarrow> P c)
         | _ \<Rightarrow> False)
      else groupOk P i r)"
| "groupOk P i (Seq a b) = (groupOk P i a \<and> groupOk P i b)"
| "groupOk P i (Alt a b) = (groupOk P i a \<and> groupOk P i b)"
| "groupOk P i (Close j st) = (j \<noteq> i)"
| "groupOk P i r = True"

definition capsOk :: "(char \<Rightarrow> bool) \<Rightarrow> nat \<Rightarrow> (nat \<times> string) list \<Rightarrow> bool" where
  "capsOk P i cs = (\<forall>s. (i, s) \<in> set cs \<longrightarrow> s \<noteq> [] \<and> list_all P s)"

definition contOk :: "(char \<Rightarrow> bool) \<Rightarrow> nat \<Rightarrow> string \<Rightarrow> re list \<Rightarrow> bool" where
  "contOk P i inp k =
     ((\<forall>r \<in> set k. groupOk P i r)
      \<or> (\<exists>g lo hi cl st pre k'. k = Rep g lo hi cl # Close i st # k' \<and> (\<forall>c. cmatch cl c \<longrightarrow> P c)
            \<and> st = pre @ inp \<and> list_all P pre \<and> (pre \<noteq> [] \<or> (0 < lo \<and> hi \<noteq> Some 0))
            \<and> (\<forall>r \<in> set k'. groupOk P i r))
      \<or> (\<exists>st pre k'. k = Close i st # k' \<and> st = pre @ inp \<and> list_all P pre \<and> pre \<noteq> []
            \<and> (\<forall>r \<in> set k'. groupOk P i r)))"

lemma contOk_static: "\<forall>r \<in> set k. groupOk P i r \<Longrightarrow> contOk P i inp k"
  by (simp add: contOk_def)


fun mustCapture :: "nat \<Rightarrow> re \<Rightarrow> bool" where
  "mustCapture i (Grp j r) = (j = i \<or> mustCapture i r)"
| "mustCapture i (Seq a b) = (mustCapture i a \<or> mustCapture i b)"
| "mustCapture i (Alt a b) = (mustCapture i a \<and> mustCapture i b)"
| "mustCapture i (Close j st) = (j = i)"
| "mustCapture i r = False"

definition moneyChar :: "char \<Rightarrow> bool" where
  "moneyChar c = (isDigit c \<or> c = CHR '','' \<or> c = CHR ''.'')"

subsection \<open>The Reconciler in the words of the specification\<close>

text \<open>
  For per-month triples \<open>(quantity, rate, charge)\<close>: the rate weighted by the quantities, 0
  when the quantities sum to 0, and the sum of the charges.
\<close>

definition weightedRate :: "(rat \<times> rat \<times> rat) list \<Rightarrow> rat" where
  "weightedRate ts =
     (if (\<Sum>(q, r, c) \<leftarrow> ts. q) = 0 then 0
      else (\<Sum>(q, r, c) \<leftarrow> ts. q * r) / (\<Sum>(q, r, c) \<leftarrow> ts. q))"

definition summedCharge :: "(rat \<times> rat \<times> rat) list \<Rightarrow> rat" where
  "summedCharge ts = (\<Sum>(q, r, c) \<leftarrow> ts. c)"

definition numTriple :: "rat \<times> rat \<times> rat \<Rightarrow> jsnum \<times> jsnum \<times> jsnum" where
  "numTriple t = (case t of (q, r, c) \<Rightarrow> (Num q, Num r, Num c))"

text \<open>The triple that the loop reads from the captures of one match.\<close>

definition groupsTriple ::
  "(string option \<Rightarrow> jsnum) \<Rightarrow> (string option \<Rightarrow> jsnum) \<Rightarrow> (nat \<times> string) list \<Rightarrow> jsnum \<times> jsnum \<times> jsnum" where
  "groupsTriple quantityOf rateOf gs =
     (quantityOf (map_of gs 1), rateOf (map_of gs 2), parseNumber (map_of gs 3))"

definition parsedTriple ::
  "(string option \<Rightarrow> jsnum) \<Rightarrow> (string option \<Rightarrow> jsnum) \<Rightarrow> rmatch \<Rightarrow> jsnum \<times> jsnum \<times> jsnum" where
  "parsedTriple quantityOf rateOf m = groupsTriple quantityOf rateOf (groups m)"

subsection \<open>The fallback chains\<close>

text \<open>
  The rate and charge that a chain of two patterns leaves in the record, from the result of
  the single-period pattern and the matches of the per-month pattern; and the same for
  the two per-month patterns of the gas supply charge.
\<close>

definition chainResult ::
  "rmatch option \<Rightarrow> rmatch list \<Rightarrow> (string option \<Rightarrow> jsnum) \<Rightarrow> jsnum \<times> jsnum" where
  "chainResult single monthMatches quantityOf =
     (case (case single of
              None \<Rightarrow> (Num 0, Num 0)
            | Some m \<Rightarrow> (reconstructRate (grp m 2), parseNumber (grp m 3))) of
        (rate1, charge1) \<Rightarrow>
          if rate1 = Num 0 then
            (case monthMatches of
               [] \<Rightarrow> (rate1, charge1)
             | m # ms \<Rightarrow> reconcile quantityOf reconstructRate monthMatches)
          else (rate1, charge1))"

definition gasSupplyResult :: "rmatch list \<Rightarrow> rmatch list \<Rightarrow> jsnum \<times> jsnum" where
  "gasSupplyResult splitMatches stdMatches =
     (case (case splitMatches of
              [] \<Rightarrow> (Num 0, Num 0)
            | m # ms \<Rightarrow> reconcile parseNumber reconstructRate splitMatches) of
        (rate1, charge1) \<Rightarrow>
          if rate1 = Num 0 then
            (case stdMatches of
               [] \<Rightarrow> (rate1, charge1)
             | m # ms \<Rightarrow> reconcile parseNumber parseNumber stdMatches)
          else (rate1, charge1))"

text \<open>
  \<open>reconciled quantityOf rateOf ms rate charge\<close>: the per-month matches \<open>ms\<close> hold finite
  triples with quantities that are not negative, \<open>rate\<close> is their weighted rate and \<open>charge\<close>
  the sum of their charges.
\<close>

definition reconciled ::
  "(string option \<Rightarrow> jsnum) \<Rightarrow> (string option \<Rightarrow> jsnum) \<Rightarrow> rmatch list \<Rightarrow> jsnum \<Rightarrow> jsnum \<Rightarrow> bool" where
  "reconciled quantityOf rateOf ms rate charge =
     (\<exists>ts. map (parsedTriple quantityOf rateOf) ms = map numTriple ts
           \<and> (\<forall>(q, r, c) \<in> set ts. 0 \<le> q)
           \<and> rate = Num (weightedRate ts) \<and> charge = Num (summedCharge ts))"

subsection \<open>The single-period pattern that the specification gives the gas supply charge\<close>

text \<open>
  The specification says that the gas supply charge is resolved by a single-period
  pattern first, as the gas delivery charge is. The source has no such pattern. This is the
  single-period pattern of the gas delivery charge (line 339) under the label \<open>Supply
  charge\<close>, to say which texts hold a gas supply line with a split rate and no month.
\<close>

definition specGasSupplySimpleRe :: re where
  "specGasSupplySimpleRe =
     icase (seqs [phrase [''Supply'', ''charge''], ws1, Grp 1 decimal, ws1, lit ''therm'', ws1, splitRate, ws1,
       Grp 3 money])"

subsection \<open>The customer name in the words of the specification\<close>

text \<open>
  The specification takes the first pair, in document order, of two consecutive all-caps
  tokens of which neither is in the exclusion vocabulary. \<open>pairsFrom\<close> lists the pairs of
  the text in document order: at every position where the name pattern matches, the text
  that it matches there. \<open>specCustomerName\<close> is the first of them with no excluded token,
  the empty text when there is none.
\<close>

fun pairsFrom :: "char option \<Rightarrow> string \<Rightarrow> string list" where
  "pairsFrom p inp =
     (case run [nameRe] p inp [] of
        Some (p', rest', cs) \<Rightarrow> [take (length inp - length rest') inp]
      | None \<Rightarrow> [])
     @ (case inp of [] \<Rightarrow> [] | x # xs \<Rightarrow> pairsFrom (Some x) xs)"

definition specCustomerName :: "string \<Rightarrow> string" where
  "specCustomerName text =
     (case filter (\<lambda>m. \<not> list_ex (\<lambda>w. w \<in> set excludeWords) (splitWs m)) (pairsFrom None text) of
        [] \<Rightarrow> []
      | m # ms \<Rightarrow> m)"

section \<open>Properties of the matcher\<close>

text \<open>
  The defining equations of the matcher are applied by hand in the proofs below, not by the
  simplifier.
\<close>

declare run.simps [simp del] searchFrom.simps [simp del] allFrom.simps [simp del] pairsFrom.simps [simp del]

lemma run_capsOk:
  "run k p inp cs = Some (p', rest', cs') \<Longrightarrow> contOk P i inp k \<Longrightarrow> capsOk P i cs \<Longrightarrow> capsOk P i cs'"
proof (induction k p inp cs rule: run.induct)
  case (1 p inp cs)
  then show ?case by (simp add: run.simps)
next
  case (2 k p inp cs)
  from "2.prems"(2) have "contOk P i inp k" by (auto simp: contOk_def)
  with 2 show ?case by (simp add: run.simps)
next
  case (3 cl k p inp cs)
  from "3.prems"(1) obtain x xs where inp: "inp = x # xs" and x: "cmatch cl x"
    and r: "run k (Some x) xs cs = Some (p', rest', cs')"
    by (auto simp: run.simps split: list.splits if_splits)
  from "3.prems"(2) have "contOk P i xs k" by (auto simp: contOk_def)
  with "3.IH" [OF inp x r] "3.prems"(3) show ?case by simp
next
  case (4 g lo hi cl k p inp cs)
  have fin: "contOk P i inp k" if "hi = Some 0 \<or> lo = 0"
    using "4.prems"(2) that by (auto simp: contOk_def)
  have more: "contOk P i xs (Rep g lo' hi' cl # k)" if "inp = x # xs" "cmatch cl x" for x xs lo' hi'
    using "4.prems"(2) that by (auto simp: contOk_def)
  note caps = "4.prems"(3)
  note eq = "4.prems"(1) [unfolded run.simps(4) [of g lo hi cl k p inp cs]]
  show ?case
  proof (cases "hi = Some 0")
    case True
    with "4.prems"(1) have "run k p inp cs = Some (p', rest', cs')"
      by (simp add: run.simps)
    with "4.IH"(1) [OF True] fin True caps show ?thesis by simp
  next
    case hi: False
    show ?thesis
    proof (cases "0 < lo")
      case True
      from eq hi True obtain x xs where inp: "inp = x # xs" and x: "cmatch cl x"
        and r: "run (Rep g (lo - 1) (dec hi) cl # k) (Some x) xs cs = Some (p', rest', cs')"
        by (auto split: list.splits if_splits)
      from "4.IH"(2) [OF hi True inp x r more [OF inp x] caps] show ?thesis .
    next
      case lo: False
      then have lo0: "lo = 0" by simp
      show ?thesis
      proof (cases g)
        case True
        from eq hi lo True
        consider (a) x xs where "inp = x # xs" "cmatch cl x"
            "run (Rep g 0 (dec hi) cl # k) (Some x) xs cs = Some (p', rest', cs')"
          | (b) "run k p inp cs = Some (p', rest', cs')"
            "(case inp of [] \<Rightarrow> None | x # xs \<Rightarrow>
                if cmatch cl x then run (Rep g 0 (dec hi) cl # k) (Some x) xs cs else None) = None"
          by (auto split: list.splits if_splits option.splits)
        then show ?thesis
        proof cases
          case a
          from "4.IH"(3) [OF hi lo True a(1) a(2) a(3) more [OF a(1) a(2)] caps] show ?thesis .
        next
          case b
          from "4.IH"(4) [OF hi lo True b(2) b(1) fin caps] lo0 show ?thesis by simp
        qed
      next
        case False
        from eq hi lo False
        consider (a) "run k p inp cs = Some (p', rest', cs')"
          | (b) x xs where "run k p inp cs = None" "inp = x # xs" "cmatch cl x"
            "run (Rep g 0 (dec hi) cl # k) (Some x) xs cs = Some (p', rest', cs')"
          by (auto split: list.splits if_splits option.splits)
        then show ?thesis
        proof cases
          case a
          from "4.IH"(5) [OF hi lo False a fin caps] lo0 show ?thesis by simp
        next
          case b
          from "4.IH"(6) [OF hi lo False b(1) b(2) b(3) b(4) more [OF b(2) b(3)] caps] show ?thesis .
        qed
      qed
    qed
  qed
next
  case (5 a b k p inp cs)
  from "5.prems"(2) have "contOk P i inp (a # b # k)" by (auto simp: contOk_def)
  with 5 show ?case by (simp add: run.simps)
next
  case (6 a b k p inp cs)
  from "6.prems"(2) have a: "contOk P i inp (a # k)" and b: "contOk P i inp (b # k)"
    by (auto simp: contOk_def)
  from "6.prems"(1) consider "run (a # k) p inp cs = Some (p', rest', cs')"
    | "run (a # k) p inp cs = None" "run (b # k) p inp cs = Some (p', rest', cs')"
    by (auto simp: run.simps split: option.splits)
  then show ?case
    using "6.IH" a b "6.prems"(3) by cases auto
next
  case (7 j r k p inp cs)
  have "contOk P i inp (r # Close j inp # k)"
  proof (cases "j = i")
    case True
    with "7.prems"(2) show ?thesis
      by (cases r) (auto simp: contOk_def)
  next
    case False
    with "7.prems"(2) show ?thesis
      by (auto simp: contOk_def)
  qed
  with 7 show ?case by (simp add: run.simps)
next
  case (8 k p inp cs)
  from "8.prems"(2) have "contOk P i inp k" by (auto simp: contOk_def)
  with 8 show ?case by (auto simp: run.simps split: if_splits)
next
  case (9 j st k p inp cs)
  have k: "contOk P i inp k"
    using "9.prems"(2) by (auto simp: contOk_def)
  have "capsOk P i ((j, take (length st - length inp) st) # cs)"
    using "9.prems"(2,3) by (auto simp: contOk_def capsOk_def)
  with 9 k show ?case by (simp add: run.simps)
qed

lemma run_captured:
  "run k p inp cs = Some (p', rest', cs') \<Longrightarrow> (\<exists>r \<in> set k. mustCapture i r) \<or> i \<in> fst ` set cs
   \<Longrightarrow> i \<in> fst ` set cs'"
proof (induction k p inp cs rule: run.induct)
  case (4 g lo hi cl k p inp cs)
  note eq = "4.prems"(1) [unfolded run.simps(4) [of g lo hi cl k p inp cs]]
  have k: "(\<exists>r \<in> set k. mustCapture i r) \<or> i \<in> fst ` set cs"
    using "4.prems"(2) by auto
  have more: "(\<exists>r \<in> set (Rep g lo' hi' cl # k). mustCapture i r) \<or> i \<in> fst ` set cs" for lo' hi'
    using "4.prems"(2) by auto
  show ?case
  proof (cases "hi = Some 0")
    case True
    with eq "4.IH"(1) k show ?thesis by simp
  next
    case hi: False
    show ?thesis
    proof (cases "0 < lo")
      case True
      from eq hi True obtain x xs where inp: "inp = x # xs" and x: "cmatch cl x"
        and r: "run (Rep g (lo - 1) (dec hi) cl # k) (Some x) xs cs = Some (p', rest', cs')"
        by (auto split: list.splits if_splits)
      from "4.IH"(2) [OF hi True inp x r more] show ?thesis .
    next
      case lo: False
      show ?thesis
      proof (cases g)
        case True
        from eq hi lo True
        consider (a) x xs where "inp = x # xs" "cmatch cl x"
            "run (Rep g 0 (dec hi) cl # k) (Some x) xs cs = Some (p', rest', cs')"
          | (b) "run k p inp cs = Some (p', rest', cs')"
            "(case inp of [] \<Rightarrow> None | x # xs \<Rightarrow>
                if cmatch cl x then run (Rep g 0 (dec hi) cl # k) (Some x) xs cs else None) = None"
          by (auto split: list.splits if_splits option.splits)
        then show ?thesis
        proof cases
          case a
          from "4.IH"(3) [OF hi lo True a(1) a(2) a(3) more] show ?thesis .
        next
          case b
          from "4.IH"(4) [OF hi lo True b(2) b(1) k] show ?thesis .
        qed
      next
        case False
        from eq hi lo False
        consider (a) "run k p inp cs = Some (p', rest', cs')"
          | (b) x xs where "run k p inp cs = None" "inp = x # xs" "cmatch cl x"
            "run (Rep g 0 (dec hi) cl # k) (Some x) xs cs = Some (p', rest', cs')"
          by (auto split: list.splits if_splits option.splits)
        then show ?thesis
        proof cases
          case a
          from "4.IH"(5) [OF hi lo False a k] show ?thesis .
        next
          case b
          from "4.IH"(6) [OF hi lo False b(1) b(2) b(3) b(4) more] show ?thesis .
        qed
      qed
    qed
  qed
next
  case (6 a b k p inp cs)
  from "6.prems"(1) consider "run (a # k) p inp cs = Some (p', rest', cs')"
    | "run (a # k) p inp cs = None" "run (b # k) p inp cs = Some (p', rest', cs')"
    by (auto simp: run.simps split: option.splits)
  then show ?case
    using "6.IH" "6.prems"(2) by cases auto
qed (auto simp: run.simps split: list.splits if_splits)

lemma searchFrom_groups:
  assumes "searchFrom r p inp idx = Some m" and "groupOk P i r" and "mustCapture i r"
  shows "\<exists>s. grp m i = Some s \<and> s \<noteq> [] \<and> list_all P s"
  using assms
proof (induction r p inp idx rule: searchFrom.induct)
  case (1 r p inp idx)
  show ?case
  proof (cases "run [r] p inp []")
    case None
    with "1.prems"(1) obtain x xs where "inp = x # xs" "searchFrom r (Some x) xs (Suc idx) = Some m"
      by (auto simp: searchFrom.simps [of r p inp idx] split: list.splits)
    with "1.IH" [OF None] "1.prems"(2,3) show ?thesis by simp
  next
    case (Some res)
    obtain p' rest' cs where res: "res = (p', rest', cs)"
      by (cases res)
    with Some "1.prems"(1) have m: "groups m = cs"
      by (auto simp: searchFrom.simps [of r p inp idx])
    from Some res have run: "run [r] p inp [] = Some (p', rest', cs)"
      by simp
    have ok: "capsOk P i cs"
      using run_capsOk [OF run, of P i] "1.prems"(2) by (simp add: contOk_def capsOk_def)
    have "i \<in> fst ` set cs"
      using run_captured [OF run, of i] "1.prems"(3) by simp
    then obtain s where s: "map_of cs i = Some s"
      by (metis domIff dom_map_of_conv_image_fst not_Some_eq)
    then have "(i, s) \<in> set cs"
      by (rule map_of_SomeD)
    with ok s m show ?thesis
      by (auto simp: capsOk_def grp_def)
  qed
qed

lemma reMatch_groups:
  "reMatch r text = Some m \<Longrightarrow> groupOk P i r \<Longrightarrow> mustCapture i r
   \<Longrightarrow> \<exists>s. grp m i = Some s \<and> s \<noteq> [] \<and> list_all P s"
  unfolding reMatch_def by (rule searchFrom_groups)

lemma allFrom_searchFrom:
  "m \<in> set (allFrom r p inp idx) \<Longrightarrow> \<exists>p' inp' idx'. searchFrom r p' inp' idx' = Some m"
proof (induction r p inp idx rule: allFrom.induct)
  case (1 r p inp idx)
  show ?case
  proof (cases "searchFrom r p inp idx")
    case None
    with "1.prems" show ?thesis
      by (simp add: allFrom.simps [of r p inp idx])
  next
    case (Some m0)
    show ?thesis
    proof (cases "m = m0")
      case True
      with Some show ?thesis by blast
    next
      case False
      from "1.prems" Some False
      have tl: "m \<in> set (if matched m0 \<noteq> [] then
                 (if length (after m0) < length inp
                  then allFrom r (afterPrev m0) (after m0) (index m0 + length (matched m0)) else [])
               else
                 (case after m0 of
                    [] \<Rightarrow> []
                  | x # xs \<Rightarrow> if length xs < length inp then allFrom r (Some x) xs (Suc (index m0)) else []))"
        by (simp add: allFrom.simps [of r p inp idx])
      show ?thesis
      proof (cases "matched m0 \<noteq> []")
        case True
        with tl have len: "length (after m0) < length inp"
          and m: "m \<in> set (allFrom r (afterPrev m0) (after m0) (index m0 + length (matched m0)))"
          by (simp_all split: if_splits)
        from "1.IH"(1) [OF Some True len m] show ?thesis .
      next
        case empty: False
        show ?thesis
        proof (cases "after m0")
          case Nil
          with tl empty show ?thesis by simp
        next
          case (Cons x xs)
          with tl empty have len: "length xs < length inp"
            and m: "m \<in> set (allFrom r (Some x) xs (Suc (index m0)))"
            by (simp_all split: if_splits)
          from "1.IH"(2) [OF Some empty Cons len m] show ?thesis .
        qed
      qed
    qed
  qed
qed

lemma reMatchAll_groups:
  "m \<in> set (reMatchAll r text) \<Longrightarrow> groupOk P i r \<Longrightarrow> mustCapture i r
   \<Longrightarrow> \<exists>s. grp m i = Some s \<and> s \<noteq> [] \<and> list_all P s"
  unfolding reMatchAll_def using allFrom_searchFrom searchFrom_groups by blast

text \<open>A match is a part of the input, so the two length tests of the global search always hold.\<close>

lemma run_suffix:
  "run k p inp cs = Some (p', rest', cs') \<Longrightarrow> \<exists>pre. inp = pre @ rest'"
proof (induction k p inp cs rule: run.induct)
  case (3 cl k p inp cs)
  from "3.prems"(1) obtain x xs where inp: "inp = x # xs" and x: "cmatch cl x"
    and r: "run k (Some x) xs cs = Some (p', rest', cs')"
    by (auto simp: run.simps split: list.splits if_splits)
  from "3.IH" [OF inp x r] obtain pre where "xs = pre @ rest'" by blast
  with inp have "inp = (x # pre) @ rest'" by simp
  then show ?case by blast
next
  case (4 g lo hi cl k p inp cs)
  note eq = "4.prems"(1) [unfolded run.simps(4) [of g lo hi cl k p inp cs]]
  have step: "\<exists>pre. inp = pre @ rest'" if "inp = x # xs" "\<exists>pre. xs = pre @ rest'" for x xs
  proof -
    from that(2) obtain pre where "xs = pre @ rest'" by blast
    with that(1) have "inp = (x # pre) @ rest'" by simp
    then show ?thesis by blast
  qed
  show ?case
  proof (cases "hi = Some 0")
    case True
    with eq "4.IH"(1) show ?thesis by simp
  next
    case hi: False
    show ?thesis
    proof (cases "0 < lo")
      case True
      from eq hi True obtain x xs where inp: "inp = x # xs" and x: "cmatch cl x"
        and r: "run (Rep g (lo - 1) (dec hi) cl # k) (Some x) xs cs = Some (p', rest', cs')"
        by (auto split: list.splits if_splits)
      from step [OF inp "4.IH"(2) [OF hi True inp x r]] show ?thesis .
    next
      case lo: False
      show ?thesis
      proof (cases g)
        case True
        from eq hi lo True
        consider (a) x xs where "inp = x # xs" "cmatch cl x"
            "run (Rep g 0 (dec hi) cl # k) (Some x) xs cs = Some (p', rest', cs')"
          | (b) "run k p inp cs = Some (p', rest', cs')"
            "(case inp of [] \<Rightarrow> None | x # xs \<Rightarrow>
                if cmatch cl x then run (Rep g 0 (dec hi) cl # k) (Some x) xs cs else None) = None"
          by (auto split: list.splits if_splits option.splits)
        then show ?thesis
        proof cases
          case a
          from step [OF a(1) "4.IH"(3) [OF hi lo True a(1) a(2) a(3)]] show ?thesis .
        next
          case b
          from "4.IH"(4) [OF hi lo True b(2) b(1)] show ?thesis .
        qed
      next
        case False
        from eq hi lo False
        consider (a) "run k p inp cs = Some (p', rest', cs')"
          | (b) x xs where "run k p inp cs = None" "inp = x # xs" "cmatch cl x"
            "run (Rep g 0 (dec hi) cl # k) (Some x) xs cs = Some (p', rest', cs')"
          by (auto split: list.splits if_splits option.splits)
        then show ?thesis
        proof cases
          case a
          from "4.IH"(5) [OF hi lo False a] show ?thesis .
        next
          case b
          from step [OF b(2) "4.IH"(6) [OF hi lo False b(1) b(2) b(3) b(4)]] show ?thesis .
        qed
      qed
    qed
  qed
next
  case (6 a b k p inp cs)
  from "6.prems"(1) consider "run (a # k) p inp cs = Some (p', rest', cs')"
    | "run (a # k) p inp cs = None" "run (b # k) p inp cs = Some (p', rest', cs')"
    by (auto simp: run.simps split: option.splits)
  then show ?case
    using "6.IH" by cases auto
qed (auto simp: run.simps split: list.splits if_splits)

lemma searchFrom_parts:
  "searchFrom r p inp idx = Some m \<Longrightarrow> \<exists>skipped. inp = skipped @ matched m @ after m"
proof (induction r p inp idx rule: searchFrom.induct)
  case (1 r p inp idx)
  show ?case
  proof (cases "run [r] p inp []")
    case None
    with "1.prems" obtain x xs where inp: "inp = x # xs" and s: "searchFrom r (Some x) xs (Suc idx) = Some m"
      by (auto simp: searchFrom.simps [of r p inp idx] split: list.splits)
    from "1.IH" [OF None inp s] obtain skipped where "xs = skipped @ matched m @ after m" by blast
    with inp have "inp = (x # skipped) @ matched m @ after m" by simp
    then show ?thesis by blast
  next
    case (Some res)
    obtain p' rest' cs where res: "res = (p', rest', cs)"
      by (cases res)
    with Some "1.prems" have m: "matched m = take (length inp - length rest') inp" "after m = rest'"
      by (auto simp: searchFrom.simps [of r p inp idx])
    from Some res have "run [r] p inp [] = Some (p', rest', cs)"
      by simp
    from run_suffix [OF this] obtain pre where "inp = pre @ rest'" by blast
    with m have "inp = [] @ matched m @ after m" by simp
    then show ?thesis by blast
  qed
qed

lemma allFrom_unguarded:
  "allFrom r p inp idx =
     (case searchFrom r p inp idx of
        None \<Rightarrow> []
      | Some m \<Rightarrow>
          m # (if matched m \<noteq> [] then allFrom r (afterPrev m) (after m) (index m + length (matched m))
               else (case after m of [] \<Rightarrow> [] | x # xs \<Rightarrow> allFrom r (Some x) xs (Suc (index m)))))"
proof (cases "searchFrom r p inp idx")
  case None
  then show ?thesis by (simp add: allFrom.simps [of r p inp idx])
next
  case (Some m)
  from searchFrom_parts [OF Some] obtain skipped where inp: "inp = skipped @ matched m @ after m"
    by blast
  then have len: "length inp = length skipped + length (matched m) + length (after m)"
    by (metis add.assoc length_append)
  have a: "matched m \<noteq> [] \<Longrightarrow> length (after m) < length inp"
    using len by (cases "matched m") simp_all
  have b: "after m = x # xs \<Longrightarrow> length xs < length inp" for x xs
    using len by simp
  show ?thesis
    using Some a b by (simp add: allFrom.simps [of r p inp idx] split: list.splits)
qed

section \<open>What each block leaves unchanged\<close>

text \<open>
  Every block of \<open>extractBillData\<close> writes its own fields only. The lemmas below say, for
  each block, which parts of the record it does not touch.
\<close>

lemma stepStatementDate_frame [simp]:
  "fileName (stepStatementDate dateOfString text data) = fileName data"
  "servicePeriod (stepStatementDate dateOfString text data) = servicePeriod data"
  "electricity (stepStatementDate dateOfString text data) = electricity data"
  "gas (stepStatementDate dateOfString text data) = gas data"
  "totalEnergyCharges (stepStatementDate dateOfString text data) = totalEnergyCharges data"
  "amountDue (stepStatementDate dateOfString text data) = amountDue data"
  by (simp_all add: stepStatementDate_def Let_def split: option.splits list.splits prod.splits)

lemma stepServicePeriod_frame [simp]:
  "fileName (stepServicePeriod dateOfString text data) = fileName data"
  "statementDate (stepServicePeriod dateOfString text data) = statementDate data"
  "sp_days (servicePeriod (stepServicePeriod dateOfString text data)) = sp_days (servicePeriod data)"
  "electricity (stepServicePeriod dateOfString text data) = electricity data"
  "gas (stepServicePeriod dateOfString text data) = gas data"
  "totalEnergyCharges (stepServicePeriod dateOfString text data) = totalEnergyCharges data"
  "amountDue (stepServicePeriod dateOfString text data) = amountDue data"
  by (simp_all add: stepServicePeriod_def Let_def split: option.splits list.splits prod.splits)

lemma stepDaysKwh_frame [simp]:
  "fileName (stepDaysKwh text data) = fileName data"
  "statementDate (stepDaysKwh text data) = statementDate data"
  "sp_start (servicePeriod (stepDaysKwh text data)) = sp_start (servicePeriod data)"
  "sp_end (servicePeriod (stepDaysKwh text data)) = sp_end (servicePeriod data)"
  "e_deliveryRate (electricity (stepDaysKwh text data)) = e_deliveryRate (electricity data)"
  "e_deliveryCharge (electricity (stepDaysKwh text data)) = e_deliveryCharge (electricity data)"
  "e_transitionRate (electricity (stepDaysKwh text data)) = e_transitionRate (electricity data)"
  "e_transitionCharge (electricity (stepDaysKwh text data)) = e_transitionCharge (electricity data)"
  "e_sbcRate (electricity (stepDaysKwh text data)) = e_sbcRate (electricity data)"
  "e_sbcCharge (electricity (stepDaysKwh text data)) = e_sbcCharge (electricity data)"
  "e_supplyRate (electricity (stepDaysKwh text data)) = e_supplyRate (electricity data)"
  "e_supplyCharge (electricity (stepDaysKwh text data)) = e_supplyCharge (electricity data)"
  "gas (stepDaysKwh text data) = gas data"
  "totalEnergyCharges (stepDaysKwh text data) = totalEnergyCharges data"
  "amountDue (stepDaysKwh text data) = amountDue data"
  by (simp_all add: stepDaysKwh_def Let_def split: option.splits list.splits prod.splits)

lemma stepElecBasic_frame [simp]:
  "fileName (stepElecBasic text data) = fileName data"
  "statementDate (stepElecBasic text data) = statementDate data"
  "servicePeriod (stepElecBasic text data) = servicePeriod data"
  "e_deliveryRate (electricity (stepElecBasic text data)) = e_deliveryRate (electricity data)"
  "e_deliveryCharge (electricity (stepElecBasic text data)) = e_deliveryCharge (electricity data)"
  "e_transitionRate (electricity (stepElecBasic text data)) = e_transitionRate (electricity data)"
  "e_transitionCharge (electricity (stepElecBasic text data)) = e_transitionCharge (electricity data)"
  "e_sbcRate (electricity (stepElecBasic text data)) = e_sbcRate (electricity data)"
  "e_sbcCharge (electricity (stepElecBasic text data)) = e_sbcCharge (electricity data)"
  "e_supplyRate (electricity (stepElecBasic text data)) = e_supplyRate (electricity data)"
  "e_supplyCharge (electricity (stepElecBasic text data)) = e_supplyCharge (electricity data)"
  "gas (stepElecBasic text data) = gas data"
  "totalEnergyCharges (stepElecBasic text data) = totalEnergyCharges data"
  "amountDue (stepElecBasic text data) = amountDue data"
  by (simp_all add: stepElecBasic_def Let_def split: option.splits list.splits prod.splits)

lemma stepDelivery_frame [simp]:
  "fileName (stepDelivery text data) = fileName data"
  "statementDate (stepDelivery text data) = statementDate data"
  "servicePeriod (stepDelivery text data) = servicePeriod data"
  "e_transitionRate (electricity (stepDelivery text data)) = e_transitionRate (electricity data)"
  "e_transitionCharge (electricity (stepDelivery text data)) = e_transitionCharge (electricity data)"
  "e_sbcRate (electricity (stepDelivery text data)) = e_sbcRate (electricity data)"
  "e_sbcCharge (electricity (stepDelivery text data)) = e_sbcCharge (electricity data)"
  "e_supplyRate (electricity (stepDelivery text data)) = e_supplyRate (electricity data)"
  "e_supplyCharge (electricity (stepDelivery text data)) = e_supplyCharge (electricity data)"
  "gas (stepDelivery text data) = gas data"
  "totalEnergyCharges (stepDelivery text data) = totalEnergyCharges data"
  "amountDue (stepDelivery text data) = amountDue data"
  by (simp_all add: stepDelivery_def Let_def split: option.splits list.splits prod.splits)

lemma stepTransition_frame [simp]:
  "fileName (stepTransition text data) = fileName data"
  "statementDate (stepTransition text data) = statementDate data"
  "servicePeriod (stepTransition text data) = servicePeriod data"
  "e_deliveryRate (electricity (stepTransition text data)) = e_deliveryRate (electricity data)"
  "e_deliveryCharge (electricity (stepTransition text data)) = e_deliveryCharge (electricity data)"
  "e_sbcRate (electricity (stepTransition text data)) = e_sbcRate (electricity data)"
  "e_sbcCharge (electricity (stepTransition text data)) = e_sbcCharge (electricity data)"
  "e_supplyRate (electricity (stepTransition text data)) = e_supplyRate (electricity data)"
  "e_supplyCharge (electricity (stepTransition text data)) = e_supplyCharge (electricity data)"
  "gas (stepTransition text data) = gas data"
  "totalEnergyCharges (stepTransition text data) = totalEnergyCharges data"
  "amountDue (stepTransition text data) = amountDue data"
  by (simp_all add: stepTransition_def Let_def split: option.splits list.splits prod.splits)

lemma stepSbc_frame [simp]:
  "fileName (stepSbc text data) = fileName data"
  "statementDate (stepSbc text data) = statementDate data"
  "servicePeriod (stepSbc text data) = servicePeriod data"
  "e_deliveryRate (electricity (stepSbc text data)) = e_deliveryRate (electricity data)"
  "e_deliveryCharge (electricity (stepSbc text data)) = e_deliveryCharge (electricity data)"
  "e_transitionRate (electricity (stepSbc text data)) = e_transitionRate (electricity data)"
  "e_transitionCharge (electricity (stepSbc text data)) = e_transitionCharge (electricity data)"
  "e_supplyRate (electricity (stepSbc text data)) = e_supplyRate (electricity data)"
  "e_supplyCharge (electricity (stepSbc text data)) = e_supplyCharge (electricity data)"
  "gas (stepSbc text data) = gas data"
  "totalEnergyCharges (stepSbc text data) = totalEnergyCharges data"
  "amountDue (stepSbc text data) = amountDue data"
  by (simp_all add: stepSbc_def Let_def split: option.splits list.splits prod.splits)

lemma stepElecDeliveryTotal_frame [simp]:
  "fileName (stepElecDeliveryTotal text data) = fileName data"
  "statementDate (stepElecDeliveryTotal text data) = statementDate data"
  "servicePeriod (stepElecDeliveryTotal text data) = servicePeriod data"
  "e_deliveryRate (electricity (stepElecDeliveryTotal text data)) = e_deliveryRate (electricity data)"
  "e_deliveryCharge (electricity (stepElecDeliveryTotal text data)) = e_deliveryCharge (electricity data)"
  "e_transitionRate (electricity (stepElecDeliveryTotal text data)) = e_transitionRate (electricity data)"
  "e_transitionCharge (electricity (stepElecDeliveryTotal text data)) = e_transitionCharge (electricity data)"
  "e_sbcRate (electricity (stepElecDeliveryTotal text data)) = e_sbcRate (electricity data)"
  "e_sbcCharge (electricity (stepElecDeliveryTotal text data)) = e_sbcCharge (electricity data)"
  "e_supplyRate (electricity (stepElecDeliveryTotal text data)) = e_supplyRate (electricity data)"
  "e_supplyCharge (electricity (stepElecDeliveryTotal text data)) = e_supplyCharge (electricity data)"
  "gas (stepElecDeliveryTotal text data) = gas data"
  "totalEnergyCharges (stepElecDeliveryTotal text data) = totalEnergyCharges data"
  "amountDue (stepElecDeliveryTotal text data) = amountDue data"
  by (simp_all add: stepElecDeliveryTotal_def Let_def split: option.splits list.splits prod.splits)

lemma stepSupply_frame [simp]:
  "fileName (stepSupply text data) = fileName data"
  "statementDate (stepSupply text data) = statementDate data"
  "servicePeriod (stepSupply text data) = servicePeriod data"
  "e_deliveryRate (electricity (stepSupply text data)) = e_deliveryRate (electricity data)"
  "e_deliveryCharge (electricity (stepSupply text data)) = e_deliveryCharge (electricity data)"
  "e_transitionRate (electricity (stepSupply text data)) = e_transitionRate (electricity data)"
  "e_transitionCharge (electricity (stepSupply text data)) = e_transitionCharge (electricity data)"
  "e_sbcRate (electricity (stepSupply text data)) = e_sbcRate (electricity data)"
  "e_sbcCharge (electricity (stepSupply text data)) = e_sbcCharge (electricity data)"
  "gas (stepSupply text data) = gas data"
  "totalEnergyCharges (stepSupply text data) = totalEnergyCharges data"
  "amountDue (stepSupply text data) = amountDue data"
  by (simp_all add: stepSupply_def Let_def split: option.splits list.splits prod.splits)

lemma stepElecSupplyTotal_frame [simp]:
  "fileName (stepElecSupplyTotal text data) = fileName data"
  "statementDate (stepElecSupplyTotal text data) = statementDate data"
  "servicePeriod (stepElecSupplyTotal text data) = servicePeriod data"
  "e_deliveryRate (electricity (stepElecSupplyTotal text data)) = e_deliveryRate (electricity data)"
  "e_deliveryCharge (electricity (stepElecSupplyTotal text data)) = e_deliveryCharge (electricity data)"
  "e_transitionRate (electricity (stepElecSupplyTotal text data)) = e_transitionRate (electricity data)"
  "e_transitionCharge (electricity (stepElecSupplyTotal text data)) = e_transitionCharge (electricity data)"
  "e_sbcRate (electricity (stepElecSupplyTotal text data)) = e_sbcRate (electricity data)"
  "e_sbcCharge (electricity (stepElecSupplyTotal text data)) = e_sbcCharge (electricity data)"
  "e_supplyRate (electricity (stepElecSupplyTotal text data)) = e_supplyRate (electricity data)"
  "e_supplyCharge (electricity (stepElecSupplyTotal text data)) = e_supplyCharge (electricity data)"
  "gas (stepElecSupplyTotal text data) = gas data"
  "totalEnergyCharges (stepElecSupplyTotal text data) = totalEnergyCharges data"
  "amountDue (stepElecSupplyTotal text data) = amountDue data"
  by (simp_all add: stepElecSupplyTotal_def Let_def split: option.splits list.splits prod.splits)

lemma stepElecTax_frame [simp]:
  "fileName (stepElecTax text data) = fileName data"
  "statementDate (stepElecTax text data) = statementDate data"
  "servicePeriod (stepElecTax text data) = servicePeriod data"
  "e_deliveryRate (electricity (stepElecTax text data)) = e_deliveryRate (electricity data)"
  "e_deliveryCharge (electricity (stepElecTax text data)) = e_deliveryCharge (electricity data)"
  "e_transitionRate (electricity (stepElecTax text data)) = e_transitionRate (electricity data)"
  "e_transitionCharge (electricity (stepElecTax text data)) = e_transitionCharge (electricity data)"
  "e_sbcRate (electricity (stepElecTax text data)) = e_sbcRate (electricity data)"
  "e_sbcCharge (electricity (stepElecTax text data)) = e_sbcCharge (electricity data)"
  "e_supplyRate (electricity (stepElecTax text data)) = e_supplyRate (electricity data)"
  "e_supplyCharge (electricity (stepElecTax text data)) = e_supplyCharge (electricity data)"
  "gas (stepElecTax text data) = gas data"
  "totalEnergyCharges (stepElecTax text data) = totalEnergyCharges data"
  "amountDue (stepElecTax text data) = amountDue data"
  by (simp_all add: stepElecTax_def Let_def split: option.splits list.splits prod.splits)

lemma stepElecTotal_frame [simp]:
  "fileName (stepElecTotal text data) = fileName data"
  "statementDate (stepElecTotal text data) = statementDate data"
  "servicePeriod (stepElecTotal text data) = servicePeriod data"
  "e_deliveryRate (electricity (stepElecTotal text data)) = e_deliveryRate (electricity data)"
  "e_deliveryCharge (electricity (stepElecTotal text data)) = e_deliveryCharge (electricity data)"
  "e_transitionRate (electricity (stepElecTotal text data)) = e_transitionRate (electricity data)"
  "e_transitionCharge (electricity (stepElecTotal text data)) = e_transitionCharge (electricity data)"
  "e_sbcRate (electricity (stepElecTotal text data)) = e_sbcRate (electricity data)"
  "e_sbcCharge (electricity (stepElecTotal text data)) = e_sbcCharge (electricity data)"
  "e_supplyRate (electricity (stepElecTotal text data)) = e_supplyRate (electricity data)"
  "e_supplyCharge (electricity (stepElecTotal text data)) = e_supplyCharge (electricity data)"
  "gas (stepElecTotal text data) = gas data"
  "totalEnergyCharges (stepElecTotal text data) = totalEnergyCharges data"
  "amountDue (stepElecTotal text data) = amountDue data"
  by (simp_all add: stepElecTotal_def Let_def split: option.splits list.splits prod.splits)

lemma stepGasCcf_frame [simp]:
  "fileName (stepGasCcf text data) = fileName data"
  "statementDate (stepGasCcf text data) = statementDate data"
  "servicePeriod (stepGasCcf text data) = servicePeriod data"
  "electricity (stepGasCcf text data) = electricity data"
  "g_deliveryRate (gas (stepGasCcf text data)) = g_deliveryRate (gas data)"
  "g_deliveryCharge (gas (stepGasCcf text data)) = g_deliveryCharge (gas data)"
  "g_supplyRate (gas (stepGasCcf text data)) = g_supplyRate (gas data)"
  "g_supplyCharge (gas (stepGasCcf text data)) = g_supplyCharge (gas data)"
  "totalEnergyCharges (stepGasCcf text data) = totalEnergyCharges data"
  "amountDue (stepGasCcf text data) = amountDue data"
  by (simp_all add: stepGasCcf_def Let_def split: option.splits list.splits prod.splits)

lemma stepGasTherm_frame [simp]:
  "fileName (stepGasTherm text data) = fileName data"
  "statementDate (stepGasTherm text data) = statementDate data"
  "servicePeriod (stepGasTherm text data) = servicePeriod data"
  "electricity (stepGasTherm text data) = electricity data"
  "g_deliveryRate (gas (stepGasTherm text data)) = g_deliveryRate (gas data)"
  "g_deliveryCharge (gas (stepGasTherm text data)) = g_deliveryCharge (gas data)"
  "g_supplyRate (gas (stepGasTherm text data)) = g_supplyRate (gas data)"
  "g_supplyCharge (gas (stepGasTherm text data)) = g_supplyCharge (gas data)"
  "totalEnergyCharges (stepGasTherm text data) = totalEnergyCharges data"
  "amountDue (stepGasTherm text data) = amountDue data"
  by (simp_all add: stepGasTherm_def Let_def split: option.splits list.splits prod.splits)

lemma stepGasBasic_frame [simp]:
  "fileName (stepGasBasic text data) = fileName data"
  "statementDate (stepGasBasic text data) = statementDate data"
  "servicePeriod (stepGasBasic text data) = servicePeriod data"
  "electricity (stepGasBasic text data) = electricity data"
  "g_deliveryRate (gas (stepGasBasic text data)) = g_deliveryRate (gas data)"
  "g_deliveryCharge (gas (stepGasBasic text data)) = g_deliveryCharge (gas data)"
  "g_supplyRate (gas (stepGasBasic text data)) = g_supplyRate (gas data)"
  "g_supplyCharge (gas (stepGasBasic text data)) = g_supplyCharge (gas data)"
  "totalEnergyCharges (stepGasBasic text data) = totalEnergyCharges data"
  "amountDue (stepGasBasic text data) = amountDue data"
  by (simp_all add: stepGasBasic_def Let_def split: option.splits list.splits prod.splits)

lemma stepGasDelivery_frame [simp]:
  "fileName (stepGasDelivery text data) = fileName data"
  "statementDate (stepGasDelivery text data) = statementDate data"
  "servicePeriod (stepGasDelivery text data) = servicePeriod data"
  "electricity (stepGasDelivery text data) = electricity data"
  "g_supplyRate (gas (stepGasDelivery text data)) = g_supplyRate (gas data)"
  "g_supplyCharge (gas (stepGasDelivery text data)) = g_supplyCharge (gas data)"
  "totalEnergyCharges (stepGasDelivery text data) = totalEnergyCharges data"
  "amountDue (stepGasDelivery text data) = amountDue data"
  by (simp_all add: stepGasDelivery_def Let_def split: option.splits list.splits prod.splits)

lemma stepGasSupply_frame [simp]:
  "fileName (stepGasSupply text data) = fileName data"
  "statementDate (stepGasSupply text data) = statementDate data"
  "servicePeriod (stepGasSupply text data) = servicePeriod data"
  "electricity (stepGasSupply text data) = electricity data"
  "g_deliveryRate (gas (stepGasSupply text data)) = g_deliveryRate (gas data)"
  "g_deliveryCharge (gas (stepGasSupply text data)) = g_deliveryCharge (gas data)"
  "totalEnergyCharges (stepGasSupply text data) = totalEnergyCharges data"
  "amountDue (stepGasSupply text data) = amountDue data"
  by (simp_all add: stepGasSupply_def Let_def split: option.splits list.splits prod.splits)

lemma stepGasDeliveryTotal_frame [simp]:
  "fileName (stepGasDeliveryTotal text data) = fileName data"
  "statementDate (stepGasDeliveryTotal text data) = statementDate data"
  "servicePeriod (stepGasDeliveryTotal text data) = servicePeriod data"
  "electricity (stepGasDeliveryTotal text data) = electricity data"
  "g_deliveryRate (gas (stepGasDeliveryTotal text data)) = g_deliveryRate (gas data)"
  "g_deliveryCharge (gas (stepGasDeliveryTotal text data)) = g_deliveryCharge (gas data)"
  "g_supplyRate (gas (stepGasDeliveryTotal text data)) = g_supplyRate (gas data)"
  "g_supplyCharge (gas (stepGasDeliveryTotal text data)) = g_supplyCharge (gas data)"
  "totalEnergyCharges (stepGasDeliveryTotal text data) = totalEnergyCharges data"
  "amountDue (stepGasDeliveryTotal text data) = amountDue data"
  by (simp_all add: stepGasDeliveryTotal_def Let_def split: option.splits list.splits prod.splits)

lemma stepGasSupplyTotal_frame [simp]:
  "fileName (stepGasSupplyTotal text data) = fileName data"
  "statementDate (stepGasSupplyTotal text data) = statementDate data"
  "servicePeriod (stepGasSupplyTotal text data) = servicePeriod data"
  "electricity (stepGasSupplyTotal text data) = electricity data"
  "g_deliveryRate (gas (stepGasSupplyTotal text data)) = g_deliveryRate (gas data)"
  "g_deliveryCharge (gas (stepGasSupplyTotal text data)) = g_deliveryCharge (gas data)"
  "g_supplyRate (gas (stepGasSupplyTotal text data)) = g_supplyRate (gas data)"
  "g_supplyCharge (gas (stepGasSupplyTotal text data)) = g_supplyCharge (gas data)"
  "totalEnergyCharges (stepGasSupplyTotal text data) = totalEnergyCharges data"
  "amountDue (stepGasSupplyTotal text data) = amountDue data"
  by (simp_all add: stepGasSupplyTotal_def Let_def split: option.splits list.splits prod.splits)

lemma stepGasTax_frame [simp]:
  "fileName (stepGasTax text data) = fileName data"
  "statementDate (stepGasTax text data) = statementDate data"
  "servicePeriod (stepGasTax text data) = servicePeriod data"
  "electricity (stepGasTax text data) = electricity data"
  "g_deliveryRate (gas (stepGasTax text data)) = g_deliveryRate (gas data)"
  "g_deliveryCharge (gas (stepGasTax text data)) = g_deliveryCharge (gas data)"
  "g_supplyRate (gas (stepGasTax text data)) = g_supplyRate (gas data)"
  "g_supplyCharge (gas (stepGasTax text data)) = g_supplyCharge (gas data)"
  "totalEnergyCharges (stepGasTax text data) = totalEnergyCharges data"
  "amountDue (stepGasTax text data) = amountDue data"
  by (simp_all add: stepGasTax_def Let_def split: option.splits list.splits prod.splits)

lemma stepGasTotal_frame [simp]:
  "fileName (stepGasTotal text data) = fileName data"
  "statementDate (stepGasTotal text data) = statementDate data"
  "servicePeriod (stepGasTotal text data) = servicePeriod data"
  "electricity (stepGasTotal text data) = electricity data"
  "g_deliveryRate (gas (stepGasTotal text data)) = g_deliveryRate (gas data)"
  "g_deliveryCharge (gas (stepGasTotal text data)) = g_deliveryCharge (gas data)"
  "g_supplyRate (gas (stepGasTotal text data)) = g_supplyRate (gas data)"
  "g_supplyCharge (gas (stepGasTotal text data)) = g_supplyCharge (gas data)"
  "totalEnergyCharges (stepGasTotal text data) = totalEnergyCharges data"
  "amountDue (stepGasTotal text data) = amountDue data"
  by (simp_all add: stepGasTotal_def Let_def split: option.splits list.splits prod.splits)

lemma stepTotalEnergy_frame [simp]:
  "fileName (stepTotalEnergy text data) = fileName data"
  "statementDate (stepTotalEnergy text data) = statementDate data"
  "servicePeriod (stepTotalEnergy text data) = servicePeriod data"
  "electricity (stepTotalEnergy text data) = electricity data"
  "gas (stepTotalEnergy text data) = gas data"
  "amountDue (stepTotalEnergy text data) = amountDue data"
  by (simp_all add: stepTotalEnergy_def Let_def split: option.splits list.splits prod.splits)

lemma stepAmountDue_frame [simp]:
  "fileName (stepAmountDue text data) = fileName data"
  "statementDate (stepAmountDue text data) = statementDate data"
  "servicePeriod (stepAmountDue text data) = servicePeriod data"
  "electricity (stepAmountDue text data) = electricity data"
  "gas (stepAmountDue text data) = gas data"
  "totalEnergyCharges (stepAmountDue text data) = totalEnergyCharges data"
  by (simp_all add: stepAmountDue_def Let_def split: option.splits list.splits prod.splits)

lemma stepDeriveDays_frame [simp]:
  "fileName (stepDeriveDays data) = fileName data"
  "statementDate (stepDeriveDays data) = statementDate data"
  "sp_start (servicePeriod (stepDeriveDays data)) = sp_start (servicePeriod data)"
  "sp_end (servicePeriod (stepDeriveDays data)) = sp_end (servicePeriod data)"
  "electricity (stepDeriveDays data) = electricity data"
  "gas (stepDeriveDays data) = gas data"
  "totalEnergyCharges (stepDeriveDays data) = totalEnergyCharges data"
  "amountDue (stepDeriveDays data) = amountDue data"
  by (simp_all add: stepDeriveDays_def Let_def split: option.splits list.splits prod.splits)

text \<open>The fields that each fallback chain leaves in the extracted record.\<close>

lemma extract_delivery:
  "(e_deliveryRate (electricity (extractBillData dateOfString text name)),
    e_deliveryCharge (electricity (extractBillData dateOfString text name)))
   = chainResult (reMatch deliveryRe text) (reMatchAll deliveryMonthRe text) parseInt"
  by (simp add: extractBillData_def)
     (simp add: stepDelivery_def chainResult_def initialData_def Let_def
        split: option.splits list.splits prod.splits)

lemma extract_transition:
  "(e_transitionRate (electricity (extractBillData dateOfString text name)),
    e_transitionCharge (electricity (extractBillData dateOfString text name)))
   = chainResult (reMatch transitionRe text) (reMatchAll transitionMonthRe text) parseInt"
  by (simp add: extractBillData_def)
     (simp add: stepTransition_def chainResult_def initialData_def Let_def
        split: option.splits list.splits prod.splits)

lemma extract_sbc:
  "(e_sbcRate (electricity (extractBillData dateOfString text name)),
    e_sbcCharge (electricity (extractBillData dateOfString text name)))
   = chainResult (reMatch sbcRe text) (reMatchAll sbcMonthRe text) parseInt"
  by (simp add: extractBillData_def)
     (simp add: stepSbc_def chainResult_def initialData_def Let_def
        split: option.splits list.splits prod.splits)

lemma extract_gasDelivery:
  "(g_deliveryRate (gas (extractBillData dateOfString text name)),
    g_deliveryCharge (gas (extractBillData dateOfString text name)))
   = chainResult (reMatch gasDeliverySimpleRe text) (reMatchAll gasDeliveryMonthRe text) parseNumber"
  by (simp add: extractBillData_def)
     (simp add: stepGasDelivery_def chainResult_def initialData_def Let_def
        split: option.splits list.splits prod.splits)

lemma extract_gasSupply:
  "(g_supplyRate (gas (extractBillData dateOfString text name)),
    g_supplyCharge (gas (extractBillData dateOfString text name)))
   = gasSupplyResult (reMatchAll gasSupplyRe text) (reMatchAll gasSupplyStdRe text)"
  by (simp add: extractBillData_def)
     (simp add: stepGasSupply_def gasSupplyResult_def initialData_def Let_def
        split: option.splits list.splits prod.splits)

section \<open>Properties of the Numeric Normalizer\<close>

lemmas charTests = isDigit_def isSpace_def isUpper_def isLower_def isWordChar_def

lemmas numParse = parseFloat_def parseNumber_def reconstructRate_def orZero_def truthy_def exponentPart_def
  pow10_def signSplit_def digitsVal_def digitVal_def

lemma parseFloat_fraction:
  assumes "\<forall>c \<in> set ds. isDigit c"
  shows "parseFloat (''0.'' @ ds) = Num (of_nat (digitsVal ds) / 10 ^ length ds)"
proof -
  have t: "takeWhile isDigit ds = ds" and d: "dropWhile isDigit ds = []"
    using assms by (simp_all add: takeWhile_eq_all_conv)
  show ?thesis
    by (simp add: parseFloat_def signSplit_def t d exponentPart_def pow10_def) (simp add: charTests digitsVal_def digitVal_def)
qed

lemma orZero_Num: "orZero (Num q) = Num q"
  by (simp add: orZero_def truthy_def)

text \<open>
  C5: for a run of digits (and for every text without a comma) \<open>reconstructRate\<close> is
  \<open>parseNumber\<close> of \<open>0.\<close> followed by the digits, the decimal number with these fractional
  digits; it is 0 on the empty string and on \<open>null\<close>; \<open>reconstructRate("07894")\<close> is 0.07894.
  \<open>parseNumber\<close> removes the commas and parses the rest as a decimal; it is 0 on \<open>null\<close>, on
  the empty string and when the rest does not parse.
\<close>

theorem reconstructRate_parseNumber:
  "(CHR '','' \<notin> set ds \<longrightarrow> reconstructRate (Some ds) = parseNumber (Some (''0.'' @ ds)))
   \<and> ((\<forall>c \<in> set ds. isDigit c) \<longrightarrow>
        reconstructRate (Some ds) = parseNumber (Some (''0.'' @ ds))
        \<and> reconstructRate (Some ds) = Num (of_nat (digitsVal ds) / 10 ^ length ds))
   \<and> reconstructRate (Some ''07894'') = Num (7894 / 100000)
   \<and> reconstructRate (Some []) = Num 0
   \<and> reconstructRate None = Num 0
   \<and> parseNumber None = Num 0
   \<and> parseNumber (Some []) = Num 0
   \<and> parseNumber (Some s) = (if s = [] then Num 0 else orZero (parseFloat (filter (\<lambda>c. c \<noteq> CHR '','') s)))
   \<and> (parseFloat (filter (\<lambda>c. c \<noteq> CHR '','') s) = NaN \<longrightarrow> parseNumber (Some s) = Num 0)
   \<and> parseNumber (Some ''1,234.56'') = Num (123456 / 100)"
proof -
  have zero: "parseFloat ''0.'' = Num 0"
    by (simp add: numParse charTests)
  have nocomma: "reconstructRate (Some ds) = parseNumber (Some (''0.'' @ ds))" if "CHR '','' \<notin> set ds" for ds
  proof -
    have "filter (\<lambda>c. c \<noteq> CHR '','') ds = ds"
      using that by (induction ds) auto
    then show ?thesis
      using zero by (simp add: reconstructRate_def parseNumber_def orZero_Num)
  qed
  have digitrun: "reconstructRate (Some ds) = Num (of_nat (digitsVal ds) / 10 ^ length ds)"
    if "\<forall>c \<in> set ds. isDigit c" for ds
    using that parseFloat_fraction [of ds]
    by (cases "ds = []") (simp_all add: reconstructRate_def orZero_Num digitsVal_def)
  have digitcomma: "CHR '','' \<notin> set ds" if "\<forall>c \<in> set ds. isDigit c" for ds
    using that by (auto simp: isDigit_def)
  have ex1: "reconstructRate (Some ''07894'') = Num (7894 / 100000)"
    by (simp add: numParse charTests)
  have ex2: "parseNumber (Some ''1,234.56'') = Num (123456 / 100)"
    by (simp add: numParse charTests)
  have nan: "parseNumber (Some s) = Num 0" if "parseFloat (filter (\<lambda>c. c \<noteq> CHR '','') s) = NaN"
    using that by (simp add: parseNumber_def orZero_def truthy_def)
  show ?thesis
    using nocomma digitrun digitcomma ex1 ex2 nan
    by (simp add: reconstructRate_def parseNumber_def)
qed

text \<open>The theorem at the digits \<open>07894\<close> and at the text \<open>abc\<close>, which does not parse.\<close>

theorem reconstructRate_parseNumber_witness:
  "CHR '','' \<notin> set ''07894'' \<and> list_all isDigit ''07894''
   \<and> parseFloat (filter (\<lambda>c. c \<noteq> CHR '','') ''abc'') = NaN
   \<and> reconstructRate (Some ''07894'') = parseNumber (Some (''0.'' @ ''07894''))
   \<and> reconstructRate (Some ''07894'') = Num (of_nat (digitsVal ''07894'') / 10 ^ length ''07894'')
   \<and> digitsVal ''07894'' = 7894
   \<and> parseNumber (Some ''abc'') = Num 0"
proof -
  have h1: "CHR '','' \<notin> set ''07894''" by simp
  have h2: "\<forall>c \<in> set ''07894''. isDigit c" by (simp add: isDigit_def)
  have h3: "parseFloat (filter (\<lambda>c. c \<noteq> CHR '','') ''abc'') = NaN"
    by (simp add: numParse charTests)
  have h4: "digitsVal ''07894'' = 7894" by (simp add: digitsVal_def digitVal_def)
  have h5: "parseNumber (Some ''abc'') = Num 0"
    using reconstructRate_parseNumber [of "''07894''" "''abc''"] h3 by blast
  have h6: "reconstructRate (Some ''07894'') = parseNumber (Some (''0.'' @ ''07894''))
      \<and> reconstructRate (Some ''07894'') = Num (of_nat (digitsVal ''07894'') / 10 ^ length ''07894'')"
    using reconstructRate_parseNumber [of "''07894''" "''abc''"] h2 by blast
  have h7: "list_all isDigit ''07894''"
    using h2 by (simp add: list_all_iff)
  show ?thesis
    using h1 h7 h3 h4 h5 h6 by blast
qed

text \<open>What the parsers return on the texts that the capture groups of the patterns hold.\<close>

lemma parseInt_digits:
  assumes "s \<noteq> []" and "list_all isDigit s"
  shows "parseInt (Some s) = Num (of_nat (digitsVal s))"
proof -
  from assms obtain c r where s: "s = c # r" and c: "isDigit c" and r: "list_all isDigit r"
    by (cases s) auto
  have sp: "dropWhile isSpace s = s"
    using s c by (auto simp: charTests)
  have sg: "signSplit s = (False, s)"
    using s c by (auto simp: signSplit_def charTests)
  have hex: "take 2 s \<noteq> ''0x''" "take 2 s \<noteq> ''0X''"
    using s r by (cases r; auto simp: charTests)+
  have tw: "takeWhile isDigit s = s"
    using assms(2) by (simp add: takeWhile_eq_all_conv list_all_iff)
  show ?thesis
    using assms(1) by (simp add: parseInt_def sp sg hex tw)
qed

lemma reconstructRate_digits:
  assumes "list_all isDigit s"
  shows "reconstructRate (Some s) = Num (of_nat (digitsVal s) / 10 ^ length s)"
  using assms parseFloat_fraction [of s]
  by (cases "s = []") (simp_all add: reconstructRate_def orZero_Num digitsVal_def list_all_iff)

lemma parseFloat_decimal:
  assumes "\<forall>c \<in> set t. isDigit c \<or> c = CHR ''.''"
  shows "parseFloat t = NaN \<or> (\<exists>q. 0 \<le> q \<and> parseFloat t = Num q)"
proof -
  have sp: "dropWhile isSpace t = t"
    using assms by (cases t) (auto simp: charTests)
  have sg: "signSplit t = (False, t)"
    using assms by (cases t) (auto simp: signSplit_def charTests)
  have inf: "take 8 t \<noteq> ''Infinity''"
  proof
    assume "take 8 t = ''Infinity''"
    then have "CHR ''I'' \<in> set (take 8 t)" by simp
    then have "CHR ''I'' \<in> set t" by (rule in_set_takeD)
    with assms show False by (auto simp: charTests)
  qed
  have ex: "exponentPart u = 0" if "\<forall>c \<in> set u. isDigit c \<or> c = CHR ''.''" for u
    using that by (cases u) (auto simp: exponentPart_def charTests)
  define r1 where "r1 = dropWhile isDigit t"
  have r1: "\<forall>c \<in> set r1. isDigit c \<or> c = CHR ''.''"
    using assms unfolding r1_def by (meson set_dropWhileD)
  define r2 where "r2 = (case r1 of [] \<Rightarrow> [] | c # r \<Rightarrow> if c = CHR ''.'' then dropWhile isDigit r else r1)"
  have "\<forall>c \<in> set r2. isDigit c \<or> c = CHR ''.''"
    using r1 unfolding r2_def by (auto split: list.splits dest!: set_dropWhileD)
  then have e0: "exponentPart r2 = 0" by (rule ex)
  show ?thesis
    using e0 unfolding r2_def r1_def
    by (simp add: parseFloat_def sp sg inf Let_def pow10_def)
qed

lemma parseNumber_money:
  assumes "list_all moneyChar s"
  shows "\<exists>q. 0 \<le> q \<and> parseNumber (Some s) = Num q"
proof -
  have "\<forall>c \<in> set (filter (\<lambda>c. c \<noteq> CHR '','') s). isDigit c \<or> c = CHR ''.''"
    using assms by (auto simp: list_all_iff moneyChar_def)
  from parseFloat_decimal [OF this] show ?thesis
    by (auto simp: parseNumber_def orZero_def truthy_def)
qed

section \<open>The capture groups of the patterns\<close>

lemmas patternParts = ws0_def ws1_def digits_def money_def decimal_def splitRate_def amount_def
  rplus_def rstar_def rlazy_def ropt_def rtimes_def

lemma class_digit: "cmatch [Digit] c \<Longrightarrow> isDigit c"
  by (simp add: cmatch_def)

lemma class_money: "cmatch [Digit, Ch CHR '','', Ch CHR ''.''] c \<Longrightarrow> moneyChar c"
  by (auto simp: cmatch_def moneyChar_def)

lemma class_decimal: "cmatch [Digit, Ch CHR ''.''] c \<Longrightarrow> moneyChar c"
  by (auto simp: cmatch_def moneyChar_def)

lemma punct_no_case [simp]:
  "\<not> isLower CHR '',''" "\<not> isUpper CHR '',''" "\<not> isLower CHR ''.''" "\<not> isUpper CHR ''.''"
  by (simp_all add: charTests)

lemma groupOk_lit [simp]: "groupOk P i (lit s)"
  by (induction s) auto

lemma groupOk_icase_lit [simp]: "groupOk P i (icase (lit s))"
  by (induction s) auto

lemma groupOk_phrase [simp]: "groupOk P i (icase (phrase vs))"
  by (induction vs rule: phrase.induct) (auto simp: ws1_def rplus_def)

lemma mustCapture_lit [simp]: "\<not> mustCapture i (icase (lit s))"
  by (induction s) auto

lemma mustCapture_phrase [simp]: "\<not> mustCapture i (icase (phrase vs))"
  by (induction vs rule: phrase.induct) (auto simp: ws1_def rplus_def)

lemma deliveryMonthRe_groups:
  "groupOk isDigit 1 deliveryMonthRe" "mustCapture 1 deliveryMonthRe"
  "groupOk isDigit 2 deliveryMonthRe" "mustCapture 2 deliveryMonthRe"
  "groupOk moneyChar 3 deliveryMonthRe" "mustCapture 3 deliveryMonthRe"
  by (auto simp: deliveryMonthRe_def patternParts dest: class_digit class_money)

lemma gasSupplyRe_groups:
  "groupOk moneyChar 1 gasSupplyRe" "mustCapture 1 gasSupplyRe"
  "groupOk isDigit 2 gasSupplyRe" "mustCapture 2 gasSupplyRe"
  "groupOk moneyChar 3 gasSupplyRe" "mustCapture 3 gasSupplyRe"
  by (auto simp: gasSupplyRe_def patternParts dest: class_digit class_money class_decimal)

lemma gasSupplyStdRe_groups:
  "groupOk moneyChar 1 gasSupplyStdRe" "mustCapture 1 gasSupplyStdRe"
  "groupOk moneyChar 2 gasSupplyStdRe" "mustCapture 2 gasSupplyStdRe"
  "groupOk moneyChar 3 gasSupplyStdRe" "mustCapture 3 gasSupplyStdRe"
  by (auto simp: gasSupplyStdRe_def patternParts dest: class_digit class_money class_decimal)

lemma shortDateRe_groups:
  "groupOk isDigit 1 shortDateRe" "mustCapture 1 shortDateRe"
  "groupOk isDigit 2 shortDateRe" "mustCapture 2 shortDateRe"
  "groupOk isDigit 3 shortDateRe" "mustCapture 3 shortDateRe"
  by (auto simp: shortDateRe_def patternParts dest: class_digit)

lemma accountRe_group: "mustCapture 1 accountRe"
  by (simp add: accountRe_def)

lemma transitionMonthRe_groups:
  "groupOk isDigit 1 transitionMonthRe" "mustCapture 1 transitionMonthRe"
  "groupOk isDigit 2 transitionMonthRe" "mustCapture 2 transitionMonthRe"
  "groupOk moneyChar 3 transitionMonthRe" "mustCapture 3 transitionMonthRe"
  by (auto simp: transitionMonthRe_def patternParts dest: class_digit class_money)

lemma sbcMonthRe_groups:
  "groupOk isDigit 1 sbcMonthRe" "mustCapture 1 sbcMonthRe"
  "groupOk isDigit 2 sbcMonthRe" "mustCapture 2 sbcMonthRe"
  "groupOk moneyChar 3 sbcMonthRe" "mustCapture 3 sbcMonthRe"
  by (auto simp: sbcMonthRe_def patternParts dest: class_digit class_money)

lemma gasDeliveryMonthRe_groups:
  "groupOk moneyChar 1 gasDeliveryMonthRe" "mustCapture 1 gasDeliveryMonthRe"
  "groupOk isDigit 2 gasDeliveryMonthRe" "mustCapture 2 gasDeliveryMonthRe"
  "groupOk moneyChar 3 gasDeliveryMonthRe" "mustCapture 3 gasDeliveryMonthRe"
  by (auto simp: gasDeliveryMonthRe_def patternParts dest: class_digit class_money class_decimal)


section \<open>The Assembler\<close>

lemma empty_text_no_match:
  "reMatch statementDateRe [] = None"
  "reMatch servicePeriodRe [] = None"
  "reMatch daysKwhRe [] = None"
  "reMatch kwhDaysRe [] = None"
  "reMatch elecBasicRe [] = None"
  "reMatch deliveryRe [] = None"
  "reMatch transitionRe [] = None"
  "reMatch sbcRe [] = None"
  "reMatch elecDeliveryTotalRe [] = None"
  "reMatch supplyRe [] = None"
  "reMatch elecSupplyTotalRe [] = None"
  "reMatch elecTaxRe [] = None"
  "reMatch elecTotalRe [] = None"
  "reMatch gasCcfRe [] = None"
  "reMatch gasThermRe [] = None"
  "reMatch gasBasicRe [] = None"
  "reMatch gasDeliverySimpleRe [] = None"
  "reMatch gasDeliveryTotalRe [] = None"
  "reMatch gasSupplyTotalRe [] = None"
  "reMatch gasTaxRe [] = None"
  "reMatch gasTotalRe [] = None"
  "reMatch totalEnergyRe [] = None"
  "reMatch amountDueRe [] = None"
  "reMatchAll deliveryMonthRe [] = []"
  "reMatchAll transitionMonthRe [] = []"
  "reMatchAll sbcMonthRe [] = []"
  "reMatchAll gasDeliveryMonthRe [] = []"
  "reMatchAll gasSupplyRe [] = []"
  "reMatchAll gasSupplyStdRe [] = []"
  by code_simp+

lemmas stepDefs =
  stepStatementDate_def stepServicePeriod_def stepDaysKwh_def stepElecBasic_def stepDelivery_def stepTransition_def stepSbc_def stepElecDeliveryTotal_def stepSupply_def stepElecSupplyTotal_def stepElecTax_def stepElecTotal_def stepGasCcf_def stepGasTherm_def stepGasBasic_def stepGasDelivery_def stepGasSupply_def stepGasDeliveryTotal_def stepGasSupplyTotal_def stepGasTax_def stepGasTotal_def stepTotalEnergy_def stepAmountDue_def stepDeriveDays_def

text \<open>
  C1: \<open>extractBillData\<close> returns a record for every text and file name: it is a total
  function, every step of it is one (the matcher terminates on every expression and
  input, and no operation of the source on the way throws). On the empty text the record
  is the default one: every number 0, every date \<open>null\<close>. The file name is passed through.
\<close>

theorem extractBillData_total:
  "extractBillData dateOfString [] name =
     \<lparr>fileName = name,
      statementDate = None,
      servicePeriod = \<lparr>sp_start = None, sp_end = None, sp_days = Num 0\<rparr>,
      electricity =
        \<lparr>e_usage = Num 0, e_basicServiceCharge = Num 0, e_deliveryRate = Num 0,
         e_deliveryCharge = Num 0, e_transitionRate = Num 0, e_transitionCharge = Num 0,
         e_sbcRate = Num 0, e_sbcCharge = Num 0, e_supplyRate = Num 0, e_supplyCharge = Num 0,
         e_totalDelivery = Num 0, e_totalSupply = Num 0, e_totalTaxes = Num 0, e_totalCost = Num 0\<rparr>,
      gas =
        \<lparr>g_usageCcf = Num 0, g_usageTherms = Num 0, g_basicServiceCharge = Num 0,
         g_deliveryRate = Num 0, g_deliveryCharge = Num 0, g_supplyRate = Num 0,
         g_supplyCharge = Num 0, g_totalDelivery = Num 0, g_totalSupply = Num 0,
         g_totalTaxes = Num 0, g_totalCost = Num 0\<rparr>,
      totalEnergyCharges = Num 0,
      amountDue = Num 0\<rparr>
   \<and> fileName (extractBillData dateOfString text name) = name"
  by (simp add: extractBillData_def) (simp add: stepDefs empty_text_no_match initialData_def)

section \<open>The Multi-Month Reconciler and the fallback chains\<close>

lemma reconcileLoop_law:
  "map (parsedTriple quantityOf rateOf) ms = map numTriple ts \<Longrightarrow>
   reconcileLoop quantityOf rateOf ms (Num a, Num b, Num d)
   = (Num (a + (\<Sum>(q, r, c) \<leftarrow> ts. q)), Num (b + (\<Sum>(q, r, c) \<leftarrow> ts. q * r)),
      Num (d + (\<Sum>(q, r, c) \<leftarrow> ts. c)))"
proof (induction ms arbitrary: ts a b d)
  case Nil
  then show ?case by simp
next
  case (Cons m ms)
  from Cons.prems obtain t ts' where ts: "ts = t # ts'"
    and t: "parsedTriple quantityOf rateOf m = numTriple t"
    and rest: "map (parsedTriple quantityOf rateOf) ms = map numTriple ts'"
    by (cases ts) auto
  obtain q r c where qrc: "t = (q, r, c)"
    by (cases t)
  from t qrc have m: "quantityOf (grp m 1) = Num q" "rateOf (grp m 2) = Num r" "parseNumber (grp m 3) = Num c"
    by (simp_all add: parsedTriple_def groupsTriple_def numTriple_def grp_def)
  show ?case
    using Cons.IH [OF rest] by (simp add: m ts qrc Let_def algebra_simps del: One_nat_def)
qed

lemma sum_quantities_nonneg:
  "\<forall>(q, r, c) \<in> set ts. (0::rat) \<le> q \<Longrightarrow> 0 \<le> (\<Sum>(q, r, c) \<leftarrow> ts. q)"
  by (induction ts) auto

lemma reconcile_law:
  assumes "map (parsedTriple quantityOf rateOf) ms = map numTriple ts"
    and "\<forall>(q, r, c) \<in> set ts. 0 \<le> q"
  shows "reconcile quantityOf rateOf ms = (Num (weightedRate ts), Num (summedCharge ts))"
proof -
  have "0 \<le> (\<Sum>(q, r, c) \<leftarrow> ts. q)"
    using assms(2) by (rule sum_quantities_nonneg)
  then show ?thesis
    using reconcileLoop_law [OF assms(1), of 0 0 0]
    by (auto simp: reconcile_def weightedRate_def summedCharge_def)
qed

text \<open>The triples that the per-month patterns yield are finite numbers, with a quantity that is not negative.\<close>

lemma parsed_triples:
  assumes f: "\<And>s. s \<noteq> [] \<Longrightarrow> list_all Pq s \<Longrightarrow> \<exists>q. 0 \<le> q \<and> quantityOf (Some s) = Num q"
    and g: "\<And>s. s \<noteq> [] \<Longrightarrow> list_all Pr s \<Longrightarrow> \<exists>x. rateOf (Some s) = Num x"
    and r: "groupOk Pq 1 r" "mustCapture 1 r" "groupOk Pr 2 r" "mustCapture 2 r"
      "groupOk moneyChar 3 r" "mustCapture 3 r"
  shows "\<exists>ts. map (parsedTriple quantityOf rateOf) (reMatchAll r text) = map numTriple ts
              \<and> (\<forall>(q, r, c) \<in> set ts. 0 \<le> q)"
proof -
  have one: "\<exists>t. parsedTriple quantityOf rateOf m = numTriple t \<and> 0 \<le> fst t"
    if "m \<in> set (reMatchAll r text)" for m
  proof -
    from reMatchAll_groups [OF that r(1,2)] obtain s1 where
      s1: "grp m 1 = Some s1" "s1 \<noteq> []" "list_all Pq s1" by blast
    from reMatchAll_groups [OF that r(3,4)] obtain s2 where
      s2: "grp m 2 = Some s2" "s2 \<noteq> []" "list_all Pr s2" by blast
    from reMatchAll_groups [OF that r(5,6)] obtain s3 where
      s3: "grp m 3 = Some s3" "list_all moneyChar s3" by blast
    from f [OF s1(2,3)] obtain q where q: "0 \<le> q" "quantityOf (Some s1) = Num q" by blast
    from g [OF s2(2,3)] obtain x where x: "rateOf (Some s2) = Num x" by blast
    from parseNumber_money [OF s3(2)] obtain c where c: "parseNumber (Some s3) = Num c" by blast
    have "parsedTriple quantityOf rateOf m = numTriple (q, x, c)"
      using s1 s2 s3 q x c
      by (simp add: parsedTriple_def groupsTriple_def numTriple_def grp_def)
    with q(1) show ?thesis by force
  qed
  have "\<exists>ts. map (parsedTriple quantityOf rateOf) ms = map numTriple ts \<and> (\<forall>t \<in> set ts. 0 \<le> fst t)"
    if "set ms \<subseteq> set (reMatchAll r text)" for ms
    using that
  proof (induction ms)
    case Nil
    then show ?case by simp
  next
    case (Cons m ms)
    then obtain ts where ts: "map (parsedTriple quantityOf rateOf) ms = map numTriple ts"
      "\<forall>t \<in> set ts. 0 \<le> fst t" by auto
    from Cons.prems have "m \<in> set (reMatchAll r text)" by simp
    from one [OF this] obtain t where "parsedTriple quantityOf rateOf m = numTriple t" "0 \<le> fst t"
      by blast
    with ts have "map (parsedTriple quantityOf rateOf) (m # ms) = map numTriple (t # ts)
        \<and> (\<forall>t \<in> set (t # ts). 0 \<le> fst t)" by simp
    then show ?case by blast
  qed
  from this [of "reMatchAll r text"] show ?thesis
    by (auto simp: case_prod_beta)
qed

lemma quantity_parseInt: "s \<noteq> [] \<Longrightarrow> list_all isDigit s \<Longrightarrow> \<exists>q. 0 \<le> q \<and> parseInt (Some s) = Num q"
  by (simp add: parseInt_digits)

lemma quantity_parseNumber: "s \<noteq> [] \<Longrightarrow> list_all moneyChar s \<Longrightarrow> \<exists>q. 0 \<le> q \<and> parseNumber (Some s) = Num q"
  by (simp add: parseNumber_money)

lemma rate_reconstructRate: "s \<noteq> [] \<Longrightarrow> list_all isDigit s \<Longrightarrow> \<exists>x. reconstructRate (Some s) = Num x"
  by (simp add: reconstructRate_digits)

lemma rate_parseNumber: "s \<noteq> [] \<Longrightarrow> list_all moneyChar s \<Longrightarrow> \<exists>x. parseNumber (Some s) = Num x"
  using parseNumber_money by blast

lemma deliveryMonth_triples:
  "\<exists>ts. map (parsedTriple parseInt reconstructRate) (reMatchAll deliveryMonthRe text) = map numTriple ts
        \<and> (\<forall>(q, r, c) \<in> set ts. 0 \<le> q)"
  by (rule parsed_triples [where Pq = isDigit and Pr = isDigit and quantityOf = parseInt and rateOf = reconstructRate,
        OF quantity_parseInt rate_reconstructRate deliveryMonthRe_groups])

lemma gasSupply_triples:
  "\<exists>ts. map (parsedTriple parseNumber reconstructRate) (reMatchAll gasSupplyRe text) = map numTriple ts
        \<and> (\<forall>(q, r, c) \<in> set ts. 0 \<le> q)"
  by (rule parsed_triples [where Pq = moneyChar and Pr = isDigit and quantityOf = parseNumber and rateOf = reconstructRate,
        OF quantity_parseNumber rate_reconstructRate gasSupplyRe_groups])

lemma gasSupplyStd_triples:
  "\<exists>ts. map (parsedTriple parseNumber parseNumber) (reMatchAll gasSupplyStdRe text) = map numTriple ts
        \<and> (\<forall>(q, r, c) \<in> set ts. 0 \<le> q)"
  by (rule parsed_triples [where Pq = moneyChar and Pr = moneyChar and quantityOf = parseNumber and rateOf = parseNumber,
        OF quantity_parseNumber rate_parseNumber gasSupplyStdRe_groups])

lemma parsedTriple_groups:
  "map (parsedTriple quantityOf rateOf) ms = map (groupsTriple quantityOf rateOf) (map groups ms)"
  by (simp add: parsedTriple_def)

lemma transitionMonth_triples:
  "\<exists>ts. map (parsedTriple parseInt reconstructRate) (reMatchAll transitionMonthRe text) = map numTriple ts
        \<and> (\<forall>(q, r, c) \<in> set ts. 0 \<le> q)"
  by (rule parsed_triples [where Pq = isDigit and Pr = isDigit and quantityOf = parseInt and rateOf = reconstructRate,
        OF quantity_parseInt rate_reconstructRate transitionMonthRe_groups])

lemma sbcMonth_triples:
  "\<exists>ts. map (parsedTriple parseInt reconstructRate) (reMatchAll sbcMonthRe text) = map numTriple ts
        \<and> (\<forall>(q, r, c) \<in> set ts. 0 \<le> q)"
  by (rule parsed_triples [where Pq = isDigit and Pr = isDigit and quantityOf = parseInt and rateOf = reconstructRate,
        OF quantity_parseInt rate_reconstructRate sbcMonthRe_groups])

lemma gasDeliveryMonth_triples:
  "\<exists>ts. map (parsedTriple parseNumber reconstructRate) (reMatchAll gasDeliveryMonthRe text) = map numTriple ts
        \<and> (\<forall>(q, r, c) \<in> set ts. 0 \<le> q)"
  by (rule parsed_triples [where Pq = moneyChar and Pr = isDigit and quantityOf = parseNumber and rateOf = reconstructRate,
        OF quantity_parseNumber rate_reconstructRate gasDeliveryMonthRe_groups])

lemma reconciled_matches:
  assumes "\<exists>ts. map (parsedTriple quantityOf rateOf) ms = map numTriple ts \<and> (\<forall>(q, r, c) \<in> set ts. 0 \<le> q)"
    and "(rate, charge) = reconcile quantityOf rateOf ms"
  shows "reconciled quantityOf rateOf ms rate charge"
proof -
  from assms(1) obtain ts where ts: "map (parsedTriple quantityOf rateOf) ms = map numTriple ts"
    "\<forall>(q, r, c) \<in> set ts. 0 \<le> q" by blast
  from reconcile_law [OF ts] assms(2) have "rate = Num (weightedRate ts)" "charge = Num (summedCharge ts)"
    by simp_all
  with ts show ?thesis
    unfolding reconciled_def by blast
qed

lemma chainResult_month:
  "single = None \<Longrightarrow> ms \<noteq> [] \<Longrightarrow> chainResult single ms quantityOf = reconcile quantityOf reconstructRate ms"
  by (cases ms) (simp_all add: chainResult_def)

lemma gasSupplyResult_split:
  "ms \<noteq> [] \<Longrightarrow> ss = [] \<Longrightarrow> gasSupplyResult ms ss = reconcile parseNumber reconstructRate ms"
  by (cases ms) (simp_all add: gasSupplyResult_def split: prod.splits)

lemma gasSupplyResult_std:
  "ms = [] \<Longrightarrow> ss \<noteq> [] \<Longrightarrow> gasSupplyResult ms ss = reconcile parseNumber parseNumber ss"
  by (cases ss) (simp_all add: gasSupplyResult_def)

lemma example_triples:
  "weightedRate [(100, 1 / 20, 5), (200, 2 / 25, 16)] = 7 / 100"
  "summedCharge [(100, 1 / 20, 5), (200, 2 / 25, 16)] = 21"
  by (simp_all add: weightedRate_def summedCharge_def)

lemma example_delivery:
  "reMatch deliveryRe ''100 kwh 05 @ 0. Delivery charge - Mar 5.00 200 kwh 08 @ 0. Delivery charge - Apr 16.00'' = None"
  "map groups (reMatchAll deliveryMonthRe
      ''100 kwh 05 @ 0. Delivery charge - Mar 5.00 200 kwh 08 @ 0. Delivery charge - Apr 16.00'')
   = [[(3, ''5.00''), (2, ''05''), (1, ''100'')], [(3, ''16.00''), (2, ''08''), (1, ''200'')]]"
  by code_simp+

lemmas evalParse = numParse charTests parseInt_def groupsTriple_def numTriple_def

lemma example_parsed:
  "map (parsedTriple parseInt reconstructRate) (reMatchAll deliveryMonthRe
      ''100 kwh 05 @ 0. Delivery charge - Mar 5.00 200 kwh 08 @ 0. Delivery charge - Apr 16.00'')
   = map numTriple [(100, 1 / 20, 5), (200, 2 / 25, 16)]"
  unfolding parsedTriple_groups example_delivery(2) by (simp add: evalParse)




lemma chainResult_both:
  assumes "single = Some m" and "ms \<noteq> []"
  shows "reconstructRate (grp m 2) \<noteq> Num 0 \<Longrightarrow>
           chainResult single ms quantityOf = (reconstructRate (grp m 2), parseNumber (grp m 3))"
    and "reconstructRate (grp m 2) = Num 0 \<Longrightarrow>
           chainResult single ms quantityOf = reconcile quantityOf reconstructRate ms"
  using assms by (cases ms; simp add: chainResult_def)+

text \<open>
  C2: when the single-period line and per-month lines of the delivery charge of electricity
  are both in the text, the rate and charge of the single-period match stay in the record
  when its reconstructed rate is not 0; when that rate is 0, the rate and the charge are
  both the Reconciler's result on the per-month matches. The same holds for the
  transition charge and the SBC charge.
\<close>

theorem single_period_preferred:
  "(\<forall>m. reMatch deliveryRe text = Some m \<and> reMatchAll deliveryMonthRe text \<noteq> [] \<longrightarrow>
      (reconstructRate (grp m 2) \<noteq> Num 0 \<longrightarrow>
         e_deliveryRate (electricity (extractBillData dateOfString text name)) = reconstructRate (grp m 2)
         \<and> e_deliveryCharge (electricity (extractBillData dateOfString text name)) = parseNumber (grp m 3))
      \<and> (reconstructRate (grp m 2) = Num 0 \<longrightarrow>
         (e_deliveryRate (electricity (extractBillData dateOfString text name)), e_deliveryCharge (electricity (extractBillData dateOfString text name)))
         = reconcile parseInt reconstructRate (reMatchAll deliveryMonthRe text)))
   \<and> (\<forall>m. reMatch transitionRe text = Some m \<and> reMatchAll transitionMonthRe text \<noteq> [] \<longrightarrow>
      (reconstructRate (grp m 2) \<noteq> Num 0 \<longrightarrow>
         e_transitionRate (electricity (extractBillData dateOfString text name)) = reconstructRate (grp m 2)
         \<and> e_transitionCharge (electricity (extractBillData dateOfString text name)) = parseNumber (grp m 3))
      \<and> (reconstructRate (grp m 2) = Num 0 \<longrightarrow>
         (e_transitionRate (electricity (extractBillData dateOfString text name)), e_transitionCharge (electricity (extractBillData dateOfString text name)))
         = reconcile parseInt reconstructRate (reMatchAll transitionMonthRe text)))
   \<and> (\<forall>m. reMatch sbcRe text = Some m \<and> reMatchAll sbcMonthRe text \<noteq> [] \<longrightarrow>
      (reconstructRate (grp m 2) \<noteq> Num 0 \<longrightarrow>
         e_sbcRate (electricity (extractBillData dateOfString text name)) = reconstructRate (grp m 2)
         \<and> e_sbcCharge (electricity (extractBillData dateOfString text name)) = parseNumber (grp m 3))
      \<and> (reconstructRate (grp m 2) = Num 0 \<longrightarrow>
         (e_sbcRate (electricity (extractBillData dateOfString text name)), e_sbcCharge (electricity (extractBillData dateOfString text name)))
         = reconcile parseInt reconstructRate (reMatchAll sbcMonthRe text)))"
proof -
  note d = extract_delivery [of dateOfString "text" name]
  note t = extract_transition [of dateOfString "text" name]
  note s = extract_sbc [of dateOfString "text" name]
  show ?thesis
    using d t s by (auto simp: chainResult_both)
qed

lemma month_example:
  assumes "map groups ms = [[(3, ''4''), (2, ''2''), (1, ''1'')]]"
  shows "ms \<noteq> []" and "reconcile parseInt reconstructRate ms = (Num (1 / 5), Num 4)"
proof -
  show "ms \<noteq> []" using assms by auto
  have "map (parsedTriple parseInt reconstructRate) ms = map numTriple [(1, 1 / 5, 4)]"
    unfolding parsedTriple_groups assms by (simp add: evalParse)
  from reconcile_law [OF this] show "reconcile parseInt reconstructRate ms = (Num (1 / 5), Num 4)"
    by (simp add: weightedRate_def summedCharge_def)
qed

lemma single_example:
  assumes "map_option groups single = Some [(3, ''9''), (2, d), (1, ''3'')]"
  obtains m where "single = Some m" "grp m 2 = Some d" "grp m 3 = Some ''9''"
  using assms by (cases single) (auto simp: grp_def)

lemma both_examples:
  "map_option groups (reMatch deliveryRe ''3 kwh 5 @ 0. Delivery charge 9 1 kwh 2 @ 0. Delivery charge - Apr 4'') = Some [(3, ''9''), (2, ''5''), (1, ''3'')]"
  "map groups (reMatchAll deliveryMonthRe ''3 kwh 5 @ 0. Delivery charge 9 1 kwh 2 @ 0. Delivery charge - Apr 4'') = [[(3, ''4''), (2, ''2''), (1, ''1'')]]"
  "map_option groups (reMatch deliveryRe ''3 kwh 0 @ 0. Delivery charge 9 1 kwh 2 @ 0. Delivery charge - Apr 4'') = Some [(3, ''9''), (2, ''0''), (1, ''3'')]"
  "map groups (reMatchAll deliveryMonthRe ''3 kwh 0 @ 0. Delivery charge 9 1 kwh 2 @ 0. Delivery charge - Apr 4'') = [[(3, ''4''), (2, ''2''), (1, ''1'')]]"
  "map_option groups (reMatch transitionRe ''3 kwh 0 @ 0. Transition charge 9 1 kwh 2 @ 0. Transition charge - Apr 4'') = Some [(3, ''9''), (2, ''0''), (1, ''3'')]"
  "map groups (reMatchAll transitionMonthRe ''3 kwh 0 @ 0. Transition charge 9 1 kwh 2 @ 0. Transition charge - Apr 4'') = [[(3, ''4''), (2, ''2''), (1, ''1'')]]"
  "map_option groups (reMatch sbcRe ''3 kwh 0 @ 0. SBC charge 9 1 kwh 2 @ 0. SBC charge - Apr 4'') = Some [(3, ''9''), (2, ''0''), (1, ''3'')]"
  "map groups (reMatchAll sbcMonthRe ''3 kwh 0 @ 0. SBC charge 9 1 kwh 2 @ 0. SBC charge - Apr 4'') = [[(3, ''4''), (2, ''2''), (1, ''1'')]]"
  by code_simp+

lemma rate_examples:
  "reconstructRate (Some ''5'') = Num (1 / 2)" "reconstructRate (Some ''0'') = Num 0"
  "parseNumber (Some ''9'') = Num 9"
  by (simp_all add: evalParse)

text \<open>
  The theorem at four texts that hold a single-period line and a per-month line: a
  delivery line with the rate 0.5, which is kept, and a delivery, a transition and an SBC
  line with the rate 0, where the per-month line decides.
\<close>

theorem single_period_preferred_witness:
  "e_deliveryRate (electricity (extractBillData (\<lambda>s. InvalidDate) ''3 kwh 5 @ 0. Delivery charge 9 1 kwh 2 @ 0. Delivery charge - Apr 4'' ''bill.pdf'')) = Num (1 / 2)
   \<and> e_deliveryCharge (electricity (extractBillData (\<lambda>s. InvalidDate) ''3 kwh 5 @ 0. Delivery charge 9 1 kwh 2 @ 0. Delivery charge - Apr 4'' ''bill.pdf'')) = Num 9
   \<and> e_deliveryRate (electricity (extractBillData (\<lambda>s. InvalidDate) ''3 kwh 0 @ 0. Delivery charge 9 1 kwh 2 @ 0. Delivery charge - Apr 4'' ''bill.pdf'')) = Num (1 / 5)
   \<and> e_deliveryCharge (electricity (extractBillData (\<lambda>s. InvalidDate) ''3 kwh 0 @ 0. Delivery charge 9 1 kwh 2 @ 0. Delivery charge - Apr 4'' ''bill.pdf'')) = Num 4
   \<and> e_transitionRate (electricity (extractBillData (\<lambda>s. InvalidDate) ''3 kwh 0 @ 0. Transition charge 9 1 kwh 2 @ 0. Transition charge - Apr 4'' ''bill.pdf'')) = Num (1 / 5)
   \<and> e_transitionCharge (electricity (extractBillData (\<lambda>s. InvalidDate) ''3 kwh 0 @ 0. Transition charge 9 1 kwh 2 @ 0. Transition charge - Apr 4'' ''bill.pdf'')) = Num 4
   \<and> e_sbcRate (electricity (extractBillData (\<lambda>s. InvalidDate) ''3 kwh 0 @ 0. SBC charge 9 1 kwh 2 @ 0. SBC charge - Apr 4'' ''bill.pdf'')) = Num (1 / 5)
   \<and> e_sbcCharge (electricity (extractBillData (\<lambda>s. InvalidDate) ''3 kwh 0 @ 0. SBC charge 9 1 kwh 2 @ 0. SBC charge - Apr 4'' ''bill.pdf'')) = Num 4"
proof -
  have a: "e_deliveryRate (electricity (extractBillData (\<lambda>s. InvalidDate) ''3 kwh 5 @ 0. Delivery charge 9 1 kwh 2 @ 0. Delivery charge - Apr 4'' ''bill.pdf'')) = Num (1 / 2)
      \<and> e_deliveryCharge (electricity (extractBillData (\<lambda>s. InvalidDate) ''3 kwh 5 @ 0. Delivery charge 9 1 kwh 2 @ 0. Delivery charge - Apr 4'' ''bill.pdf'')) = Num 9"
  proof -
    from both_examples(1) obtain m where m: "reMatch deliveryRe ''3 kwh 5 @ 0. Delivery charge 9 1 kwh 2 @ 0. Delivery charge - Apr 4'' = Some m"
      "grp m 2 = Some ''5''" "grp m 3 = Some ''9''" by (rule single_example)
    show ?thesis
      using single_period_preferred [of "''3 kwh 5 @ 0. Delivery charge 9 1 kwh 2 @ 0. Delivery charge - Apr 4''" "\<lambda>s. InvalidDate" "''bill.pdf''"]
        m month_example(1) [OF both_examples(2)] rate_examples
      by simp
  qed
  have b: "e_deliveryRate (electricity (extractBillData (\<lambda>s. InvalidDate) ''3 kwh 0 @ 0. Delivery charge 9 1 kwh 2 @ 0. Delivery charge - Apr 4'' ''bill.pdf'')) = Num (1 / 5)
      \<and> e_deliveryCharge (electricity (extractBillData (\<lambda>s. InvalidDate) ''3 kwh 0 @ 0. Delivery charge 9 1 kwh 2 @ 0. Delivery charge - Apr 4'' ''bill.pdf'')) = Num 4"
  proof -
    from both_examples(3) obtain m where m: "reMatch deliveryRe ''3 kwh 0 @ 0. Delivery charge 9 1 kwh 2 @ 0. Delivery charge - Apr 4'' = Some m"
      "grp m 2 = Some ''0''" "grp m 3 = Some ''9''" by (rule single_example)
    show ?thesis
      using single_period_preferred [of "''3 kwh 0 @ 0. Delivery charge 9 1 kwh 2 @ 0. Delivery charge - Apr 4''" "\<lambda>s. InvalidDate" "''bill.pdf''"]
        m month_example [OF both_examples(4)] rate_examples
      by simp
  qed
  have c: "e_transitionRate (electricity (extractBillData (\<lambda>s. InvalidDate) ''3 kwh 0 @ 0. Transition charge 9 1 kwh 2 @ 0. Transition charge - Apr 4'' ''bill.pdf'')) = Num (1 / 5)
      \<and> e_transitionCharge (electricity (extractBillData (\<lambda>s. InvalidDate) ''3 kwh 0 @ 0. Transition charge 9 1 kwh 2 @ 0. Transition charge - Apr 4'' ''bill.pdf'')) = Num 4"
  proof -
    from both_examples(5) obtain m where m: "reMatch transitionRe ''3 kwh 0 @ 0. Transition charge 9 1 kwh 2 @ 0. Transition charge - Apr 4'' = Some m"
      "grp m 2 = Some ''0''" "grp m 3 = Some ''9''" by (rule single_example)
    show ?thesis
      using single_period_preferred [of "''3 kwh 0 @ 0. Transition charge 9 1 kwh 2 @ 0. Transition charge - Apr 4''" "\<lambda>s. InvalidDate" "''bill.pdf''"]
        m month_example [OF both_examples(6)] rate_examples
      by simp
  qed
  have d: "e_sbcRate (electricity (extractBillData (\<lambda>s. InvalidDate) ''3 kwh 0 @ 0. SBC charge 9 1 kwh 2 @ 0. SBC charge - Apr 4'' ''bill.pdf'')) = Num (1 / 5)
      \<and> e_sbcCharge (electricity (extractBillData (\<lambda>s. InvalidDate) ''3 kwh 0 @ 0. SBC charge 9 1 kwh 2 @ 0. SBC charge - Apr 4'' ''bill.pdf'')) = Num 4"
  proof -
    from both_examples(7) obtain m where m: "reMatch sbcRe ''3 kwh 0 @ 0. SBC charge 9 1 kwh 2 @ 0. SBC charge - Apr 4'' = Some m"
      "grp m 2 = Some ''0''" "grp m 3 = Some ''9''" by (rule single_example)
    show ?thesis
      using single_period_preferred [of "''3 kwh 0 @ 0. SBC charge 9 1 kwh 2 @ 0. SBC charge - Apr 4''" "\<lambda>s. InvalidDate" "''bill.pdf''"]
        m month_example [OF both_examples(8)] rate_examples
      by simp
  qed
  from a b c d show ?thesis by blast
qed

text \<open>
  C4, as amended: the gas supply charge is resolved by two per-month patterns and by no
  single-period pattern. The per-month pattern with the split rate is tried first, and its
  Reconciler result is kept when its rate is not 0; otherwise the per-month pattern with
  the rate as a literal decimal decides when it has matches. When neither per-month
  pattern has a match, the rate and the charge stay 0, whatever else the text holds.
\<close>

theorem gas_supply_chain:
  "(reMatchAll gasSupplyRe text = [] \<and> reMatchAll gasSupplyStdRe text = [] \<longrightarrow>
      g_supplyRate (gas (extractBillData dateOfString text name)) = Num 0
      \<and> g_supplyCharge (gas (extractBillData dateOfString text name)) = Num 0)
   \<and> (reMatchAll gasSupplyRe text \<noteq> []
        \<and> fst (reconcile parseNumber reconstructRate (reMatchAll gasSupplyRe text)) \<noteq> Num 0 \<longrightarrow>
      (g_supplyRate (gas (extractBillData dateOfString text name)),
       g_supplyCharge (gas (extractBillData dateOfString text name)))
      = reconcile parseNumber reconstructRate (reMatchAll gasSupplyRe text))
   \<and> ((reMatchAll gasSupplyRe text = []
         \<or> fst (reconcile parseNumber reconstructRate (reMatchAll gasSupplyRe text)) = Num 0)
        \<and> reMatchAll gasSupplyStdRe text \<noteq> [] \<longrightarrow>
      (g_supplyRate (gas (extractBillData dateOfString text name)),
       g_supplyCharge (gas (extractBillData dateOfString text name)))
      = reconcile parseNumber parseNumber (reMatchAll gasSupplyStdRe text))
   \<and> (reMatchAll gasSupplyRe text \<noteq> [] \<and> reMatchAll gasSupplyStdRe text = [] \<longrightarrow>
      (g_supplyRate (gas (extractBillData dateOfString text name)),
       g_supplyCharge (gas (extractBillData dateOfString text name)))
      = reconcile parseNumber reconstructRate (reMatchAll gasSupplyRe text))"
proof -
  note g = extract_gasSupply [of dateOfString "text" name]
  show ?thesis
    unfolding g [unfolded prod_eq_iff, simplified, THEN conjunct1]
      g [unfolded prod_eq_iff, simplified, THEN conjunct2]
    by (cases "reMatchAll gasSupplyRe text"; cases "reMatchAll gasSupplyStdRe text";
        cases "reconcile parseNumber reconstructRate (reMatchAll gasSupplyRe text)";
        cases "reconcile parseNumber parseNumber (reMatchAll gasSupplyStdRe text)")
       (auto simp: gasSupplyResult_def)
qed

lemma gas_examples:
  "reMatchAll gasSupplyRe ''Supply charge 44.2 therm 61252 @ 0. 27.07'' = []"
  "reMatchAll gasSupplyStdRe ''Supply charge 44.2 therm 61252 @ 0. 27.07'' = []"
  "map_option groups (reMatch specGasSupplySimpleRe ''Supply charge 44.2 therm 61252 @ 0. 27.07'')
   = Some [(3, ''27.07''), (2, ''61252''), (1, ''44.2'')]"
  "map_option groups (reMatch gasDeliverySimpleRe ''Delivery charge 44.2 therm 61252 @ 0. 27.07'')
   = Some [(3, ''27.07''), (2, ''61252''), (1, ''44.2'')]"
  "reMatchAll gasDeliveryMonthRe ''Delivery charge 44.2 therm 61252 @ 0. 27.07'' = []"
  "map groups (reMatchAll gasSupplyRe ''Supply charge - Apr 18.5 therm 61252 @ 0. 11.33'')
   = [[(3, ''11.33''), (2, ''61252''), (1, ''18.5'')]]"
  "reMatchAll gasSupplyRe ''Supply charge - April 18.5 therm @ 0.61252 11.33'' = []"
  "map groups (reMatchAll gasSupplyStdRe ''Supply charge - April 18.5 therm @ 0.61252 11.33'')
   = [[(3, ''11.33''), (2, ''0.61252''), (1, ''18.5'')]]"
  by code_simp+

lemma gas_split_example:
  assumes "map groups ms = [[(3, ''11.33''), (2, ''61252''), (1, ''18.5'')]]"
  shows "ms \<noteq> []" and "reconcile parseNumber reconstructRate ms = (Num (15313 / 25000), Num (1133 / 100))"
proof -
  show "ms \<noteq> []" using assms by auto
  have "map (parsedTriple parseNumber reconstructRate) ms = map numTriple [(37 / 2, 15313 / 25000, 1133 / 100)]"
    unfolding parsedTriple_groups assms by (simp add: evalParse)
  from reconcile_law [OF this]
  show "reconcile parseNumber reconstructRate ms = (Num (15313 / 25000), Num (1133 / 100))"
    by (simp add: weightedRate_def summedCharge_def)
qed

lemma gas_std_example:
  assumes "map groups ms = [[(3, ''11.33''), (2, ''0.61252''), (1, ''18.5'')]]"
  shows "ms \<noteq> []" and "reconcile parseNumber parseNumber ms = (Num (15313 / 25000), Num (1133 / 100))"
proof -
  show "ms \<noteq> []" using assms by auto
  have "map (parsedTriple parseNumber parseNumber) ms = map numTriple [(37 / 2, 15313 / 25000, 1133 / 100)]"
    unfolding parsedTriple_groups assms by (simp add: evalParse)
  from reconcile_law [OF this]
  show "reconcile parseNumber parseNumber ms = (Num (15313 / 25000), Num (1133 / 100))"
    by (simp add: weightedRate_def summedCharge_def)
qed

text \<open>
  The theorem at three texts: a gas supply line with no month, which leaves the rate and
  the charge at 0, a per-month line with the split rate, and a per-month line with the
  rate as a literal decimal; both give the rate 0.61252 and the charge 11.33.
\<close>

theorem gas_supply_chain_witness:
  "g_supplyRate (gas (extractBillData (\<lambda>s. InvalidDate) ''Supply charge 44.2 therm 61252 @ 0. 27.07'' ''bill.pdf'')) = Num 0
   \<and> g_supplyCharge (gas (extractBillData (\<lambda>s. InvalidDate) ''Supply charge 44.2 therm 61252 @ 0. 27.07'' ''bill.pdf'')) = Num 0
   \<and> (g_supplyRate (gas (extractBillData (\<lambda>s. InvalidDate) ''Supply charge - Apr 18.5 therm 61252 @ 0. 11.33'' ''bill.pdf'')),
       g_supplyCharge (gas (extractBillData (\<lambda>s. InvalidDate) ''Supply charge - Apr 18.5 therm 61252 @ 0. 11.33'' ''bill.pdf'')))
      = (Num (15313 / 25000), Num (1133 / 100))
   \<and> (g_supplyRate (gas (extractBillData (\<lambda>s. InvalidDate) ''Supply charge - April 18.5 therm @ 0.61252 11.33'' ''bill.pdf'')),
       g_supplyCharge (gas (extractBillData (\<lambda>s. InvalidDate) ''Supply charge - April 18.5 therm @ 0.61252 11.33'' ''bill.pdf'')))
      = (Num (15313 / 25000), Num (1133 / 100))"
proof -
  have a: "g_supplyRate (gas (extractBillData (\<lambda>s. InvalidDate) ''Supply charge 44.2 therm 61252 @ 0. 27.07'' ''bill.pdf'')) = Num 0
      \<and> g_supplyCharge (gas (extractBillData (\<lambda>s. InvalidDate) ''Supply charge 44.2 therm 61252 @ 0. 27.07'' ''bill.pdf'')) = Num 0"
    using gas_supply_chain [of "''Supply charge 44.2 therm 61252 @ 0. 27.07''" "\<lambda>s. InvalidDate" "''bill.pdf''"]
      gas_examples(1,2) by blast
  have b: "(g_supplyRate (gas (extractBillData (\<lambda>s. InvalidDate) ''Supply charge - Apr 18.5 therm 61252 @ 0. 11.33'' ''bill.pdf'')),
       g_supplyCharge (gas (extractBillData (\<lambda>s. InvalidDate) ''Supply charge - Apr 18.5 therm 61252 @ 0. 11.33'' ''bill.pdf'')))
      = (Num (15313 / 25000), Num (1133 / 100))"
    using gas_supply_chain [of "''Supply charge - Apr 18.5 therm 61252 @ 0. 11.33''" "\<lambda>s. InvalidDate" "''bill.pdf''"]
      gas_split_example [OF gas_examples(6)] by simp
  have c: "(g_supplyRate (gas (extractBillData (\<lambda>s. InvalidDate) ''Supply charge - April 18.5 therm @ 0.61252 11.33'' ''bill.pdf'')),
       g_supplyCharge (gas (extractBillData (\<lambda>s. InvalidDate) ''Supply charge - April 18.5 therm @ 0.61252 11.33'' ''bill.pdf'')))
      = (Num (15313 / 25000), Num (1133 / 100))"
    using gas_supply_chain [of "''Supply charge - April 18.5 therm @ 0.61252 11.33''" "\<lambda>s. InvalidDate" "''bill.pdf''"]
      gas_std_example [OF gas_examples(8)] gas_examples(7) by simp
  from a b c show ?thesis by blast
qed

text \<open>
  C4 as stated fails: this text holds a gas supply line with a split rate and no month,
  which the single-period pattern of the specification matches, and the gas supply rate
  and charge stay 0. The same line under the label of the gas delivery charge, which
  has a single-period pattern in the source, sets the delivery rate and charge.
\<close>

theorem gas_supply_chain_counterexample:
  "map_option groups (reMatch specGasSupplySimpleRe ''Supply charge 44.2 therm 61252 @ 0. 27.07'')
     = Some [(3, ''27.07''), (2, ''61252''), (1, ''44.2'')]
   \<and> g_supplyRate (gas (extractBillData (\<lambda>s. InvalidDate) ''Supply charge 44.2 therm 61252 @ 0. 27.07'' ''bill.pdf'')) = Num 0
   \<and> g_supplyCharge (gas (extractBillData (\<lambda>s. InvalidDate) ''Supply charge 44.2 therm 61252 @ 0. 27.07'' ''bill.pdf'')) = Num 0
   \<and> g_deliveryRate (gas (extractBillData (\<lambda>s. InvalidDate) ''Delivery charge 44.2 therm 61252 @ 0. 27.07'' ''bill.pdf''))
     = Num (15313 / 25000)
   \<and> g_deliveryCharge (gas (extractBillData (\<lambda>s. InvalidDate) ''Delivery charge 44.2 therm 61252 @ 0. 27.07'' ''bill.pdf''))
     = Num (2707 / 100)"
proof -
  have s: "gasSupplyResult [] [] = (Num 0, Num 0)"
    by (simp add: gasSupplyResult_def)
  have sup: "g_supplyRate (gas (extractBillData (\<lambda>s. InvalidDate) ''Supply charge 44.2 therm 61252 @ 0. 27.07'' ''bill.pdf'')) = Num 0
      \<and> g_supplyCharge (gas (extractBillData (\<lambda>s. InvalidDate) ''Supply charge 44.2 therm 61252 @ 0. 27.07'' ''bill.pdf'')) = Num 0"
    using extract_gasSupply [of "\<lambda>s. InvalidDate" "''Supply charge 44.2 therm 61252 @ 0. 27.07''" "''bill.pdf''"]
    by (simp add: gas_examples(1,2) s)
  from gas_examples(4) obtain m where m: "reMatch gasDeliverySimpleRe ''Delivery charge 44.2 therm 61252 @ 0. 27.07'' = Some m"
    "grp m 2 = Some ''61252''" "grp m 3 = Some ''27.07''"
    by (cases "reMatch gasDeliverySimpleRe ''Delivery charge 44.2 therm 61252 @ 0. 27.07''") (auto simp: grp_def)
  have r: "reconstructRate (Some ''61252'') = Num (15313 / 25000)" "parseNumber (Some ''27.07'') = Num (2707 / 100)"
    by (simp_all add: evalParse)
  have delivery: "g_deliveryRate (gas (extractBillData (\<lambda>s. InvalidDate) ''Delivery charge 44.2 therm 61252 @ 0. 27.07'' ''bill.pdf''))
     = Num (15313 / 25000)
   \<and> g_deliveryCharge (gas (extractBillData (\<lambda>s. InvalidDate) ''Delivery charge 44.2 therm 61252 @ 0. 27.07'' ''bill.pdf''))
     = Num (2707 / 100)"
    using extract_gasDelivery [of "\<lambda>s. InvalidDate" "''Delivery charge 44.2 therm 61252 @ 0. 27.07''" "''bill.pdf''"]
    by (simp add: m r chainResult_def)
  from gas_examples(3) sup delivery show ?thesis by blast
qed

text \<open>
  C10: the supply charge of electricity has one pattern (line 288) and no per-month
  fallback: when that pattern does not match the text, the supply rate and the supply
  charge of electricity stay 0, also when the text holds per-month supply lines; when it
  matches, they are read from its match.
\<close>

theorem supply_single_pattern:
  "(reMatch supplyRe text = None \<longrightarrow>
      e_supplyRate (electricity (extractBillData dateOfString text name)) = Num 0
      \<and> e_supplyCharge (electricity (extractBillData dateOfString text name)) = Num 0)
   \<and> (\<forall>supplyMatch. reMatch supplyRe text = Some supplyMatch \<longrightarrow>
      e_supplyRate (electricity (extractBillData dateOfString text name)) = reconstructRate (grp supplyMatch 2)
      \<and> e_supplyCharge (electricity (extractBillData dateOfString text name)) = parseNumber (grp supplyMatch 3))"
  by (simp add: extractBillData_def) (simp add: stepSupply_def initialData_def)

lemma supply_examples:
  "reMatch supplyRe ''Supply charge - Apr 1297 kwh 08395 @ 0. 102.39'' = None"
  "map_option groups (reMatch supplyRe ''Supply charge 3990 kwh 08395531 @ 0. 334.98'')
   = Some [(3, ''334.98''), (2, ''08395531''), (1, ''3990'')]"
  by code_simp+

text \<open>
  The theorem at a text with a supply line of electricity in the per-month form \<open>Supply
  charge - Month\<close>, which the pattern does not match: the supply rate and charge stay 0. At the
  supply line of the source's comment (line 286) they are 0.08395531 and 334.98.
\<close>

theorem supply_single_pattern_witness:
  "reMatch supplyRe ''Supply charge - Apr 1297 kwh 08395 @ 0. 102.39'' = None
   \<and> e_supplyRate (electricity (extractBillData (\<lambda>s. InvalidDate)
        ''Supply charge - Apr 1297 kwh 08395 @ 0. 102.39'' ''bill.pdf'')) = Num 0
   \<and> e_supplyCharge (electricity (extractBillData (\<lambda>s. InvalidDate)
        ''Supply charge - Apr 1297 kwh 08395 @ 0. 102.39'' ''bill.pdf'')) = Num 0
   \<and> e_supplyRate (electricity (extractBillData (\<lambda>s. InvalidDate)
        ''Supply charge 3990 kwh 08395531 @ 0. 334.98'' ''bill.pdf'')) = Num (8395531 / 100000000)
   \<and> e_supplyCharge (electricity (extractBillData (\<lambda>s. InvalidDate)
        ''Supply charge 3990 kwh 08395531 @ 0. 334.98'' ''bill.pdf'')) = Num (33498 / 100)"
proof -
  have a: "e_supplyRate (electricity (extractBillData (\<lambda>s. InvalidDate)
        ''Supply charge - Apr 1297 kwh 08395 @ 0. 102.39'' ''bill.pdf'')) = Num 0
   \<and> e_supplyCharge (electricity (extractBillData (\<lambda>s. InvalidDate)
        ''Supply charge - Apr 1297 kwh 08395 @ 0. 102.39'' ''bill.pdf'')) = Num 0"
    using supply_single_pattern [of "''Supply charge - Apr 1297 kwh 08395 @ 0. 102.39''" "\<lambda>s. InvalidDate" "''bill.pdf''"]
      supply_examples(1) by blast
  from supply_examples(2) obtain m where m: "reMatch supplyRe ''Supply charge 3990 kwh 08395531 @ 0. 334.98'' = Some m"
    "grp m 2 = Some ''08395531''" "grp m 3 = Some ''334.98''"
    by (cases "reMatch supplyRe ''Supply charge 3990 kwh 08395531 @ 0. 334.98''") (auto simp: grp_def)
  have r: "reconstructRate (Some ''08395531'') = Num (8395531 / 100000000)" "parseNumber (Some ''334.98'') = Num (33498 / 100)"
    by (simp_all add: evalParse)
  have b: "e_supplyRate (electricity (extractBillData (\<lambda>s. InvalidDate)
        ''Supply charge 3990 kwh 08395531 @ 0. 334.98'' ''bill.pdf'')) = Num (8395531 / 100000000)
   \<and> e_supplyCharge (electricity (extractBillData (\<lambda>s. InvalidDate)
        ''Supply charge 3990 kwh 08395531 @ 0. 334.98'' ''bill.pdf'')) = Num (33498 / 100)"
    using supply_single_pattern [of "''Supply charge 3990 kwh 08395531 @ 0. 334.98''" "\<lambda>s. InvalidDate" "''bill.pdf''"]
      m r by simp
  from supply_examples(1) a b show ?thesis by blast
qed

text \<open>
  C8 fails on the code: the record that \<open>extractBillData\<close> returns has no property
  \<open>miscellaneousCharges\<close>, for any text; reading it gives \<open>undefined\<close>, not 0. The properties
  \<open>totalEnergyCharges\<close> and \<open>amountDue\<close>, the other two document-level totals, are there and
  are 0 on the empty text.
\<close>

theorem miscellaneousCharges_missing:
  "documentTotal (extractBillData dateOfString text name) ''miscellaneousCharges'' = None
   \<and> documentTotal (extractBillData dateOfString [] name) ''totalEnergyCharges'' = Some (Num 0)
   \<and> documentTotal (extractBillData dateOfString [] name) ''amountDue'' = Some (Num 0)"
  by (simp add: documentTotal_def) (simp add: extractBillData_def stepDefs empty_text_no_match initialData_def)

section \<open>Dates and the billing days\<close>

lemmas evalDate = newDate_def makeDay_def dayFromYear_def isLeap_def monthStart_def msPerDay_def truncNum_def
  jsub_def

lemma date_examples:
  "map_option groups (reMatch shortDateRe ''01/09/25'') = Some [(3, ''25''), (2, ''09''), (1, ''01'')]"
  "map_option groups (reMatch shortDateRe ''02/07/25'') = Some [(3, ''25''), (2, ''07''), (1, ''02'')]"
  "map_option groups (reMatch shortDateRe ''01/01/51'') = Some [(3, ''51''), (2, ''01''), (1, ''01'')]"
  "map_option groups (reMatch shortDateRe ''01/01/49'') = Some [(3, ''49''), (2, ''01''), (1, ''01'')]"
  "reMatch shortDateRe ''hello'' = None"
  "reMatch longDateRe ''hello'' = None"
  "reMatch shortDateRe [] = None"
  by code_simp+

lemma parseDate_short:
  assumes "map_option groups (reMatch shortDateRe s) = Some [(3, yr), (2, dy), (1, mo)]" and "s \<noteq> []"
  shows "parseDate dateOfString (Some s)
         = Some (newDate (if jgt (parseInt (Some yr)) (Num 50) then jadd (Num 1900) (parseInt (Some yr))
                          else jadd (Num 2000) (parseInt (Some yr)))
                   (jsub (parseInt (Some mo)) (Num 1)) (parseInt (Some dy)))"
  using assms by (cases "reMatch shortDateRe s") (auto simp: parseDate_def grp_def Let_def)

lemma new_dates:
  "newDate (Num 2025) (Num 0) (Num 9) = TimeValue 1736380800000"
  "newDate (Num 2025) (Num 1) (Num 7) = TimeValue 1738886400000"
  "newDate (Num 1951) (Num 0) (Num 1) = TimeValue (- 599616000000)"
  "newDate (Num 2049) (Num 0) (Num 1) = TimeValue 2493072000000"
  by (simp_all add: evalDate)

lemma parsed_dates:
  "parseDate dateOfString (Some ''01/09/25'') = Some (newDate (Num 2025) (Num 0) (Num 9))"
  "parseDate dateOfString (Some ''02/07/25'') = Some (newDate (Num 2025) (Num 1) (Num 7))"
  "parseDate dateOfString (Some ''01/01/51'') = Some (newDate (Num 1951) (Num 0) (Num 1))"
  "parseDate dateOfString (Some ''01/01/49'') = Some (newDate (Num 2049) (Num 0) (Num 1))"
  by (simp_all add: parseDate_short [OF date_examples(1)] parseDate_short [OF date_examples(2)]
        parseDate_short [OF date_examples(3)] parseDate_short [OF date_examples(4)] jsub_def evalParse)

text \<open>
  C6: when the pattern \<open>MM/DD/YY\<close> matches the input, \<open>parseDate\<close> returns the date made of
  the year 1900 + yy when yy > 50 and 2000 + yy otherwise, the month and the day, where
  the three tokens are runs of digits; \<open>01/09/25\<close> is 9 January 2025 (the time value
  1736380800000), the year token 51 gives the year 1951 and 49 the year 2049. When neither
  pattern matches, and on \<open>null\<close> and the empty text, \<open>parseDate\<close> returns \<open>null\<close>.
\<close>

theorem parseDate_pivot:
  "(\<forall>m. reMatch shortDateRe s = Some m \<longrightarrow>
      (\<exists>mo dy yr. grp m 1 = Some mo \<and> grp m 2 = Some dy \<and> grp m 3 = Some yr
         \<and> list_all isDigit yr \<and> yr \<noteq> []
         \<and> parseDate dateOfString (Some s)
           = Some (newDate (Num (of_nat (if 50 < digitsVal yr then 1900 + digitsVal yr else 2000 + digitsVal yr)))
                     (Num (of_nat (digitsVal mo) - 1)) (Num (of_nat (digitsVal dy))))))
   \<and> parseDate dateOfString (Some ''01/09/25'') = Some (newDate (Num 2025) (Num 0) (Num 9))
   \<and> newDate (Num 2025) (Num 0) (Num 9) = TimeValue 1736380800000
   \<and> parseDate dateOfString (Some ''01/01/51'') = Some (newDate (Num 1951) (Num 0) (Num 1))
   \<and> parseDate dateOfString (Some ''01/01/49'') = Some (newDate (Num 2049) (Num 0) (Num 1))
   \<and> (reMatch shortDateRe s = None \<and> reMatch longDateRe s = None \<longrightarrow> parseDate dateOfString (Some s) = None)
   \<and> parseDate dateOfString None = None
   \<and> parseDate dateOfString (Some []) = None"
proof -
  have general: "\<exists>mo dy yr. grp m 1 = Some mo \<and> grp m 2 = Some dy \<and> grp m 3 = Some yr
         \<and> list_all isDigit yr \<and> yr \<noteq> []
         \<and> parseDate dateOfString (Some s)
           = Some (newDate (Num (of_nat (if 50 < digitsVal yr then 1900 + digitsVal yr else 2000 + digitsVal yr)))
                     (Num (of_nat (digitsVal mo) - 1)) (Num (of_nat (digitsVal dy))))"
    if m: "reMatch shortDateRe s = Some m" for m
  proof -
    from reMatch_groups [OF m shortDateRe_groups(1,2)] obtain mo where
      mo: "grp m 1 = Some mo" "mo \<noteq> []" "list_all isDigit mo" by blast
    from reMatch_groups [OF m shortDateRe_groups(3,4)] obtain dy where
      dy: "grp m 2 = Some dy" "dy \<noteq> []" "list_all isDigit dy" by blast
    from reMatch_groups [OF m shortDateRe_groups(5,6)] obtain yr where
      yr: "grp m 3 = Some yr" "yr \<noteq> []" "list_all isDigit yr" by blast
    from m date_examples(7) have s: "s \<noteq> []" by auto
    have "parseDate dateOfString (Some s)
           = Some (newDate (Num (of_nat (if 50 < digitsVal yr then 1900 + digitsVal yr else 2000 + digitsVal yr)))
                     (Num (of_nat (digitsVal mo) - 1)) (Num (of_nat (digitsVal dy))))"
      using m s mo dy yr parseInt_digits [OF mo(2,3)] parseInt_digits [OF dy(2,3)] parseInt_digits [OF yr(2,3)]
      by (simp add: parseDate_def Let_def jsub_def del: One_nat_def)
    with mo dy yr show ?thesis by blast
  qed
  have none: "parseDate dateOfString (Some s) = None"
    if "reMatch shortDateRe s = None" "reMatch longDateRe s = None"
    using that by (simp add: parseDate_def)
  have nulls: "parseDate dateOfString None = None" "parseDate dateOfString (Some []) = None"
    by (simp_all add: parseDate_def)
  show ?thesis
    using general none nulls parsed_dates new_dates by blast
qed

text \<open>
  The theorem at the input \<open>01/01/51\<close>, where the year token is over 50, and at the input
  \<open>hello\<close>, which neither pattern matches.
\<close>

theorem parseDate_pivot_witness:
  "map_option groups (reMatch shortDateRe ''01/01/51'') = Some [(3, ''51''), (2, ''01''), (1, ''01'')]
   \<and> digitsVal ''51'' = 51
   \<and> parseDate (\<lambda>s. InvalidDate) (Some ''01/01/51'') = Some (newDate (Num 1951) (Num 0) (Num 1))
   \<and> reMatch shortDateRe ''hello'' = None \<and> reMatch longDateRe ''hello'' = None
   \<and> parseDate (\<lambda>s. InvalidDate) (Some ''hello'') = None"
proof -
  note inst = parseDate_pivot [of "''01/01/51''" "\<lambda>s. InvalidDate"]
  from date_examples(3) obtain m where m: "reMatch shortDateRe ''01/01/51'' = Some m"
    "grp m 1 = Some ''01''" "grp m 2 = Some ''01''" "grp m 3 = Some ''51''"
    by (cases "reMatch shortDateRe ''01/01/51''") (auto simp: grp_def)
  have v: "digitsVal ''51'' = 51" "digitsVal ''01'' = 1"
    by (simp_all add: digitsVal_def digitVal_def)
  from inst m obtain mo dy yr where "grp m 1 = Some mo" "grp m 2 = Some dy" "grp m 3 = Some yr"
    "parseDate (\<lambda>s. InvalidDate) (Some ''01/01/51'')
           = Some (newDate (Num (of_nat (if 50 < digitsVal yr then 1900 + digitsVal yr else 2000 + digitsVal yr)))
                     (Num (of_nat (digitsVal mo) - 1)) (Num (of_nat (digitsVal dy))))"
    by blast
  with m v have a: "parseDate (\<lambda>s. InvalidDate) (Some ''01/01/51'') = Some (newDate (Num 1951) (Num 0) (Num 1))"
    by simp
  have b: "parseDate (\<lambda>s. InvalidDate) (Some ''hello'') = None"
    using parseDate_pivot [of "''hello''" "\<lambda>s. InvalidDate"] date_examples(5,6) by blast
  from date_examples(3,5,6) v(1) a b show ?thesis by blast
qed

lemma stepDeriveDays_servicePeriod:
  "servicePeriod d = servicePeriod d' \<Longrightarrow> servicePeriod (stepDeriveDays d) = servicePeriod (stepDeriveDays d')"
  by (simp add: stepDeriveDays_def Let_def split: option.splits)

lemma stepDaysKwh_servicePeriod:
  "servicePeriod d = servicePeriod d' \<Longrightarrow> servicePeriod (stepDaysKwh text d) = servicePeriod (stepDaysKwh text d')"
  by (simp add: stepDaysKwh_def split: option.splits)

lemma stepServicePeriod_servicePeriod:
  "servicePeriod d = servicePeriod d' \<Longrightarrow>
   servicePeriod (stepServicePeriod dateOfString text d) = servicePeriod (stepServicePeriod dateOfString text d')"
  by (simp add: stepServicePeriod_def split: option.splits)

lemma extract_servicePeriod:
  "servicePeriod (extractBillData dateOfString text name)
   = servicePeriod (stepDeriveDays (stepDaysKwh text (stepServicePeriod dateOfString text (initialData name))))"
proof -
  have "servicePeriod (stepDaysKwh text (stepServicePeriod dateOfString text (stepStatementDate dateOfString text (initialData name))))
        = servicePeriod (stepDaysKwh text (stepServicePeriod dateOfString text (initialData name)))"
    by (intro stepDaysKwh_servicePeriod stepServicePeriod_servicePeriod) simp
  then show ?thesis
    unfolding extractBillData_def by (intro stepDeriveDays_servicePeriod) simp
qed


lemma period_examples:
  "reMatch daysKwhRe ''01/09/25 - 02/07/25'' = None"
  "reMatch kwhDaysRe ''01/09/25 - 02/07/25'' = None"
  "map_option groups (reMatch servicePeriodRe ''01/09/25 - 02/07/25'') = Some [(2, ''02/07/25''), (1, ''01/09/25'')]"
  by code_simp+


section \<open>Account information\<close>

lemma searchFrom_captured:
  assumes "searchFrom r p inp idx = Some m" and "mustCapture i r"
  shows "grp m i \<noteq> None"
  using assms
proof (induction r p inp idx rule: searchFrom.induct)
  case (1 r p inp idx)
  show ?case
  proof (cases "run [r] p inp []")
    case None
    with "1.prems"(1) obtain x xs where "inp = x # xs" "searchFrom r (Some x) xs (Suc idx) = Some m"
      by (auto simp: searchFrom.simps [of r p inp idx] split: list.splits)
    with "1.IH" [OF None] "1.prems"(2) show ?thesis by simp
  next
    case (Some res)
    obtain p' rest' cs where res: "res = (p', rest', cs)"
      by (cases res)
    with Some "1.prems"(1) have m: "groups m = cs"
      by (auto simp: searchFrom.simps [of r p inp idx])
    from Some res have "run [r] p inp [] = Some (p', rest', cs)"
      by simp
    from run_captured [OF this, of i] "1.prems"(2) have "i \<in> fst ` set cs"
      by simp
    with m show ?thesis
      by (simp add: grp_def map_of_eq_None_iff)
  qed
qed

lemma nameLoop_first:
  "nameLoop ms name = (case filter nameAccepted ms of [] \<Rightarrow> name | m # rest \<Rightarrow> m)"
  by (induction ms) simp_all

text \<open>
  What the code does for the customer name: \<open>extractAccountInfo\<close> never throws, and the
  name is the first accepted text among the successive matches of the name pattern, each
  search starting where the previous match ended; it is empty when there is none.
\<close>

lemma extractAccountInfo_customerName:
  "\<exists>info. extractAccountInfo text = Inr info
      \<and> customerName info
        = (case filter nameAccepted (map matched (reMatchAll nameRe text)) of [] \<Rightarrow> [] | m # rest \<Rightarrow> m)"
proof -
  have acc: "grp m 1 \<noteq> None" if "reMatch accountRe text = Some m" for m
    using that accountRe_group unfolding reMatch_def by (rule searchFrom_captured)
  show ?thesis
  proof (cases "reMatch accountRe text")
    case None
    then show ?thesis
      by (cases "reMatchAll nameRe text")
         (auto simp: extractAccountInfo_def reMatchG_def nameLoop_first Let_def split: option.splits list.splits)
  next
    case (Some m)
    with acc obtain g where "grp m 1 = Some g" by blast
    with Some show ?thesis
      by (cases "reMatchAll nameRe text")
         (auto simp: extractAccountInfo_def reMatchG_def nameLoop_first Let_def split: option.splits list.splits)
  qed
qed

text \<open>
  C9 fails on the code. In the text \<open>NYSEG JOHN SMITH\<close> the first pair of consecutive
  all-caps tokens is \<open>NYSEG JOHN\<close>, which holds an excluded word, and the next pair is \<open>JOHN
  SMITH\<close>, which holds none: the name of the claim is \<open>JOHN SMITH\<close>. The code finds the one
  match \<open>NYSEG JOHN\<close>, goes on after \<open>JOHN\<close>, and leaves the customer name empty. On the text
  \<open>JOHN SMITH\<close> alone the code finds the name.
\<close>

theorem customerName_pair_skipped:
  "extractAccountInfo ''NYSEG JOHN SMITH'' = Inr \<lparr>accountNumber = [], customerName = [], serviceAddress = []\<rparr>
   \<and> reMatchG nameRe ''NYSEG JOHN SMITH'' = Some [''NYSEG JOHN'']
   \<and> pairsFrom None ''NYSEG JOHN SMITH'' = [''NYSEG JOHN'', ''JOHN SMITH'']
   \<and> specCustomerName ''NYSEG JOHN SMITH'' = ''JOHN SMITH''
   \<and> extractAccountInfo ''JOHN SMITH'' = Inr \<lparr>accountNumber = [], customerName = ''JOHN SMITH'', serviceAddress = []\<rparr>"
  by code_simp

end
